theory Spec2Isabelle
  imports Main
begin

section \<open>Python values and built-ins used by the script\<close>

text \<open>
  The script \<^verbatim>\<open>m_find_macs_by_vlans.py\<close> runs under SecureCRT's Python 2 interpreter
  (\<^verbatim>\<open>__builtin__\<close>, \<^verbatim>\<open>e.message\<close>). Its strings are byte strings, modelled as
  \<^typ>\<open>string\<close>. Every exception the script raises, catches or lets through is a value of
  \<open>exn\<close>; a computation that may raise returns \<open>exn + 'a\<close>, with \<open>Inl\<close> the exception.
\<close>

datatype exn =
    ScriptError string
  | ConnectError string
  | InteractionError string
  | UnsupportedOSError string
  | KeyError
  | IndexError
  | ValueError
  | OtherError string

text \<open>\<^verbatim>\<open>str.isspace\<close>, \<^verbatim>\<open>str.isdigit\<close> and \<^verbatim>\<open>str.lower\<close> on one byte.\<close>

definition is_space :: "char \<Rightarrow> bool" where
  "is_space c \<longleftrightarrow> c \<in> set [CHR '' '', CHR 0x09, CHR 0x0A, CHR 0x0B, CHR 0x0C, CHR 0x0D]"

definition is_digit :: "char \<Rightarrow> bool" where
  "is_digit c \<longleftrightarrow> c \<in> set ''0123456789''"

definition is_alpha :: "char \<Rightarrow> bool" where
  "is_alpha c \<longleftrightarrow>
     c \<in> set ''abcdefghijklmnopqrstuvwxyz'' \<or> c \<in> set ''ABCDEFGHIJKLMNOPQRSTUVWXYZ''"

definition lower_char :: "char \<Rightarrow> char" where
  "lower_char c =
     (case map_of (zip ''ABCDEFGHIJKLMNOPQRSTUVWXYZ'' ''abcdefghijklmnopqrstuvwxyz'') c of
        Some l \<Rightarrow> l
      | None \<Rightarrow> c)"

definition py_lower :: "string \<Rightarrow> string" where
  "py_lower s = map lower_char s"

text \<open>\<^verbatim>\<open>s.strip()\<close>: whitespace removed at both ends.\<close>

definition py_strip :: "string \<Rightarrow> string" where
  "py_strip s = rev (dropWhile is_space (rev (dropWhile is_space s)))"

text \<open>
  \<^verbatim>\<open>s.split(c)\<close> with an explicit one-character separator: the pieces between the
  occurrences of \<open>c\<close>, never an empty list.
\<close>

fun py_split :: "char \<Rightarrow> string \<Rightarrow> string list" where
  "py_split c [] = [[]]"
| "py_split c (x # xs) =
     (if x = c then [] # py_split c xs
      else (case py_split c xs of
              [] \<Rightarrow> [[x]]
            | p # ps \<Rightarrow> (x # p) # ps))"

text \<open>\<^verbatim>\<open>xs[i]\<close> for a non-negative index: \<^verbatim>\<open>IndexError\<close> out of range.\<close>

definition py_index :: "'a list \<Rightarrow> nat \<Rightarrow> exn + 'a" where
  "py_index xs i = (if i < length xs then Inr (xs ! i) else Inl IndexError)"

text \<open>
  \<^verbatim>\<open>int(s)\<close> on a byte string: surrounding whitespace is ignored, an optional sign is
  followed by at least one decimal digit and nothing else; anything else raises
  \<^verbatim>\<open>ValueError\<close>.
\<close>

definition digit_val :: "char \<Rightarrow> nat" where
  "digit_val c = of_char c - 48"

definition dec_val :: "string \<Rightarrow> nat" where
  "dec_val ds = foldl (\<lambda>n c. 10 * n + digit_val c) 0 ds"

definition all_digits :: "string \<Rightarrow> bool" where
  "all_digits ds \<longleftrightarrow> ds \<noteq> [] \<and> list_all is_digit ds"

definition py_int :: "string \<Rightarrow> exn + int" where
  "py_int s =
     (case py_strip s of
        [] \<Rightarrow> Inl ValueError
      | c # r \<Rightarrow>
          if c = CHR ''-'' then (if all_digits r then Inr (- int (dec_val r)) else Inl ValueError)
          else if c = CHR ''+'' then (if all_digits r then Inr (int (dec_val r)) else Inl ValueError)
          else if all_digits (c # r) then Inr (int (dec_val (c # r)))
          else Inl ValueError)"

text \<open>Truthiness of an optional string: \<^verbatim>\<open>None\<close> and \<^verbatim>\<open>""\<close> are false.\<close>

definition truthy :: "string option \<Rightarrow> bool" where
  "truthy v \<longleftrightarrow> (case v of None \<Rightarrow> False | Some s \<Rightarrow> s \<noteq> [])"

text \<open>\<^verbatim>\<open>d[k]\<close> on a dictionary: \<^verbatim>\<open>KeyError\<close> when the key is missing.\<close>

definition py_getitem :: "('k \<rightharpoonup> 'v) \<Rightarrow> 'k \<Rightarrow> exn + 'v" where
  "py_getitem d k = (case d k of None \<Rightarrow> Inl KeyError | Some v \<Rightarrow> Inr v)"


section \<open>Effects: the trace of calls to the outside world\<close>

text \<open>
  The script talks to its collaborators (the SecureCRT session, the two output files, the
  operator dialogs) through calls whose order matters. Each such call is an \<open>event\<close>; a
  computation returns its result or exception together with the events it performed, in
  order. An event records that the call was made, whether or not it then raised.
\<close>

datatype event =
    EvImportDeviceList
  | EvPromptWindow
  | EvOpenReport
  | EvWriteReport string
  | EvFlushReport
  | EvCloseReport
  | EvAppendLog string
  | EvConnect string string string string "string option"
  | EvDisconnect
  | EvSessionDisconnect
  | EvStartCiscoSession
  | EvEndCiscoSession
  | EvCommand string

type_synonym 'a io = "(exn + 'a) \<times> event list"

definition io_return :: "'a \<Rightarrow> 'a io" where
  "io_return x = (Inr x, [])"

definition io_raise :: "exn \<Rightarrow> 'a io" where
  "io_raise e = (Inl e, [])"

definition io_lift :: "exn + 'a \<Rightarrow> 'a io" where
  "io_lift r = (r, [])"

definition io_call :: "event \<Rightarrow> exn + 'a \<Rightarrow> 'a io" where
  "io_call ev r = (r, [ev])"

text \<open>Sequencing: an exception in the first computation skips the rest.\<close>

definition io_bind :: "'a io \<Rightarrow> ('a \<Rightarrow> 'b io) \<Rightarrow> 'b io" where
  "io_bind m f =
     (case m of
        (Inl e, tr) \<Rightarrow> (Inl e, tr)
      | (Inr x, tr) \<Rightarrow> (case f x of (r, tr') \<Rightarrow> (r, tr @ tr')))"

definition raises :: "exn option \<Rightarrow> exn + unit" where
  "raises r = (case r of None \<Rightarrow> Inr () | Some e \<Rightarrow> Inl e)"


section \<open>Collaborators that are not part of the script\<close>

text \<open>
  The helper functions of \<^verbatim>\<open>securecrt_tools.utilities\<close> and \<^verbatim>\<open>scripts\<close> that the script
  calls are parameters of the model: \<^verbatim>\<open>long_int_name\<close>, \<^verbatim>\<open>textfsm_parse_to_list\<close> (called
  with \<^verbatim>\<open>add_header=False\<close>; arguments: raw output, template file), \<^verbatim>\<open>get_template\<close> and
  \<^verbatim>\<open>expand_number_range\<close>.
\<close>

record library =
  long_int_name :: "string \<Rightarrow> string"
  textfsm_parse_to_list :: "string \<Rightarrow> string \<Rightarrow> string list list"
  get_template :: "string \<Rightarrow> string"
  expand_number_range :: "string \<Rightarrow> exn + int list"

text \<open>
  A connected session: its OS tag and hostname, and what each of its methods does when
  the collector calls it (\<open>None\<close>: returns normally; \<open>Some e\<close>: raises \<open>e\<close>).
\<close>

record session =
  os :: string
  hostname :: string
  start_cisco_session :: "exn option"
  get_command_output :: "string \<Rightarrow> exn + string"
  end_cisco_session :: "exn option"

text \<open>
  Modelled from the spec: \<^verbatim>\<open>utilities.long_int_name\<close>, the Interface Name Normalizer of
  section 4.2, whose source is not part of the script. The spec fixes: surrounding
  whitespace is trimmed; an abbreviated or already expanded name becomes the canonical long
  form in one case (lower case in the spec's examples, \<^verbatim>\<open>Gi1/0/1\<close> and
  \<^verbatim>\<open>GigabitEthernet1/0/1\<close> both giving \<^verbatim>\<open>gigabitethernet1/0/1\<close>); an unknown prefix passes
  through unchanged except for trimming. The alias table holds the one alias the spec names.
  It is used only to evaluate the spec's two concrete examples; every general theorem
  below holds for an arbitrary \<open>long_int_name\<close>.
\<close>

definition interface_aliases :: "(string \<times> string) list" where
  "interface_aliases =
     [(''gi'', ''gigabitethernet''), (''gigabitethernet'', ''gigabitethernet'')]"

definition normalize_interface :: "string \<Rightarrow> string" where
  "normalize_interface s =
     (let t = py_strip s; p = takeWhile is_alpha t; r = dropWhile is_alpha t
      in case map_of interface_aliases (py_lower p) of
           Some long \<Rightarrow> long @ py_lower r
         | None \<Rightarrow> t)"


section \<open>The per-device collector\<close>

subsection \<open>Uplink resolver (lines 153--158)\<close>

text \<open>
  \<^verbatim>\<open>
  for entry in root_results:
      vlan_string = entry[0]
      vlan = int(vlan_string.split("N")[1])
      uplink = utilities.long_int_name(entry[6]).strip()
      if uplink:
          exclude_ports[vlan] = uplink
  \<close>
  No exception is caught here: an \<^verbatim>\<open>IndexError\<close> or \<^verbatim>\<open>ValueError\<close> leaves the loop and the
  function.
\<close>

definition label_vlan :: "string \<Rightarrow> exn + int" where
  "label_vlan vlan_string =
     (case py_index (py_split CHR ''N'' vlan_string) 1 of
        Inl e \<Rightarrow> Inl e
      | Inr piece \<Rightarrow> py_int piece)"

definition uplink_step ::
  "(string \<Rightarrow> string) \<Rightarrow> (int \<rightharpoonup> string) \<Rightarrow> string list \<Rightarrow> exn + (int \<rightharpoonup> string)" where
  "uplink_step lin exclude entry =
     (case py_index entry 0 of
        Inl e \<Rightarrow> Inl e
      | Inr vlan_string \<Rightarrow>
     (case label_vlan vlan_string of
        Inl e \<Rightarrow> Inl e
      | Inr vlan \<Rightarrow>
     (case py_index entry 6 of
        Inl e \<Rightarrow> Inl e
      | Inr port \<Rightarrow>
          (let uplink = py_strip (lin port)
           in Inr (if uplink \<noteq> [] then exclude(vlan \<mapsto> uplink) else exclude)))))"

fun uplink_loop ::
  "(string \<Rightarrow> string) \<Rightarrow> (int \<rightharpoonup> string) \<Rightarrow> string list list \<Rightarrow> exn + (int \<rightharpoonup> string)" where
  "uplink_loop lin exclude [] = Inr exclude"
| "uplink_loop lin exclude (entry # rest) =
     (case uplink_step lin exclude entry of
        Inl e \<Rightarrow> Inl e
      | Inr exclude' \<Rightarrow> uplink_loop lin exclude' rest)"

definition resolve_uplinks :: "(string \<Rightarrow> string) \<Rightarrow> string list list \<Rightarrow> exn + (int \<rightharpoonup> string)" where
  "resolve_uplinks lin root_results = uplink_loop lin Map.empty root_results"

subsection \<open>MAC table filter (lines 178--194)\<close>

text \<open>
  The loop works on four local variables of \<^verbatim>\<open>per_device_work\<close>; they are the fields of
  \<open>locals\<close>, passed through the loop so that anything the loop did to them would show.
  \<^verbatim>\<open>
  results = []
  for entry in fsm_results:
      try:
          vlan = int(entry[0])
      except ValueError:
          continue
      if vlan in vlan_set:
          try:
              uplink = exclude_ports[vlan]
          except KeyError:
              uplink = ""
          mac_intf = utilities.long_int_name(entry[2]).lower()
          uplink_intf = uplink.strip().lower()
          if not mac_intf == uplink_intf:
              results.append(entry)
  \<close>
\<close>

record locals =
  fsm_results :: "string list list"
  vlan_set :: "int set"
  exclude_ports :: "int \<rightharpoonup> string"
  results :: "string list list"

definition filter_step :: "(string \<Rightarrow> string) \<Rightarrow> locals \<Rightarrow> string list \<Rightarrow> exn + locals" where
  "filter_step lin st entry =
     (case py_index entry 0 of
        Inl e \<Rightarrow> Inl e
      | Inr field0 \<Rightarrow>
     (case py_int field0 of
        Inl e \<Rightarrow> (if e = ValueError then Inr st else Inl e)
      | Inr vlan \<Rightarrow>
          if vlan \<in> vlan_set st then
            (let uplink = (case py_getitem (exclude_ports st) vlan of
                             Inl e \<Rightarrow> []
                           | Inr u \<Rightarrow> u)
             in case py_index entry 2 of
                  Inl e \<Rightarrow> Inl e
                | Inr field2 \<Rightarrow>
                    (let mac_intf = py_lower (lin field2);
                         uplink_intf = py_lower (py_strip uplink)
                     in if \<not> mac_intf = uplink_intf
                        then Inr (st\<lparr>results := results st @ [entry]\<rparr>)
                        else Inr st))
          else Inr st))"

fun filter_loop :: "(string \<Rightarrow> string) \<Rightarrow> locals \<Rightarrow> string list list \<Rightarrow> exn + locals" where
  "filter_loop lin st [] = Inr st"
| "filter_loop lin st (entry # rest) =
     (case filter_step lin st entry of
        Inl e \<Rightarrow> Inl e
      | Inr st' \<Rightarrow> filter_loop lin st' rest)"

definition mac_filter :: "(string \<Rightarrow> string) \<Rightarrow> locals \<Rightarrow> exn + locals" where
  "mac_filter lin st = filter_loop lin (st\<lparr>results := []\<rparr>) (fsm_results st)"

subsection \<open>\<^verbatim>\<open>per_device_work\<close> (lines 127--199)\<close>

text \<open>
  The session calls are made in the order of the source; the first one that raises ends
  the function with that exception, since the function has no \<^verbatim>\<open>try\<close> around them.
  \<^verbatim>\<open>end_cisco_session\<close> is the last call before the \<^verbatim>\<open>return\<close>. The retry with the
  legacy spelling is
  \<^verbatim>\<open>
  # Check if IOS mac_table is empty -- if so, it is probably because the switch has an older IOS
  # that expects "show mac-address-table" instead of "show mac address-table".
  if session.os == "IOS" and len(fsm_results) == 1:
      send_cmd = "show mac-address-table dynamic"
      raw_mac = session.get_command_output(send_cmd)
      fsm_results = utilities.textfsm_parse_to_list(raw_mac, template_file, add_header=False)
  \<close>
  The parameter \<^verbatim>\<open>enable_pass\<close> is not used by the function.
\<close>

definition per_device_work ::
  "library \<Rightarrow> session \<Rightarrow> string \<Rightarrow> int set \<Rightarrow> (string \<times> string list list) io" where
  "per_device_work lib sess enable_pass vset =
     io_bind (io_call EvStartCiscoSession (raises (start_cisco_session sess))) (\<lambda>_.
     let template_file =
           (if os sess = ''IOS''
            then get_template lib ''cisco_os_show_spanning-tree_root.template''
            else get_template lib ''cisco_os_show_spanning-tree_root.template'')
     in
     io_bind (io_call (EvCommand ''show spanning-tree root'')
                (get_command_output sess ''show spanning-tree root'')) (\<lambda>raw_stp_root.
     let root_results = textfsm_parse_to_list lib raw_stp_root template_file
     in
     io_bind (io_lift (resolve_uplinks (long_int_name lib) root_results)) (\<lambda>exclude.
     let template_file =
           (if os sess = ''NXOS''
            then get_template lib ''cisco_nxos_show_mac_addr_table.template''
            else get_template lib ''cisco_ios_show_mac_addr_table.template'')
     in
     io_bind (io_call (EvCommand ''show mac address-table'')
                (get_command_output sess ''show mac address-table'')) (\<lambda>raw_mac.
     let parsed = textfsm_parse_to_list lib raw_mac template_file
     in
     io_bind (if os sess = ''IOS'' \<and> length parsed = 1
              then io_bind (io_call (EvCommand ''show mac-address-table dynamic'')
                              (get_command_output sess ''show mac-address-table dynamic''))
                     (\<lambda>raw_mac. io_return (textfsm_parse_to_list lib raw_mac template_file))
              else io_return parsed) (\<lambda>parsed.
     io_bind (io_lift (mac_filter (long_int_name lib)
                \<lparr>fsm_results = parsed, vlan_set = vset, exclude_ports = exclude,
                 results = []\<rparr>)) (\<lambda>st.
     io_bind (io_call EvEndCiscoSession (raises (end_cisco_session sess))) (\<lambda>_.
     io_return (hostname sess, results st))))))))"


section \<open>The batch orchestrator: \<^verbatim>\<open>script_main\<close> (lines 31--122)\<close>

text \<open>
  A device record of the inventory is a dictionary from column names to strings. In the
  model each record comes with the behaviour of the outside world at the moment the loop
  reaches it: what \<^verbatim>\<open>script.connect\<close> does, the session it yields, what
  \<^verbatim>\<open>script.disconnect\<close> does and, for the \<^verbatim>\<open>except\<close> clauses, what appending a line to the
  failure log (\<^verbatim>\<open>open(failed_log, 'a')\<close> and \<^verbatim>\<open>logfile.write\<close>) and the call
  \<^verbatim>\<open>session.disconnect()\<close> do (\<open>None\<close>: returns normally; \<open>Some e\<close>: raises \<open>e\<close>).
\<close>

text \<open>
  The two calls of \<^verbatim>\<open>create_output_filename\<close> only compute file names and are left out;
  the report file exists from \<^verbatim>\<open>EvOpenReport\<close> on, the failure log from its first
  \<^verbatim>\<open>EvAppendLog\<close>.
\<close>

type_synonym device = "string \<rightharpoonup> string"

record device_sim =
  connect_result :: "exn option"
  main_session :: session
  disconnect_result :: "exn option"
  log_append_result :: "exn option"
  session_disconnect_result :: "exn option"

record script =
  is_connected :: bool
  import_device_list :: "(device \<times> device_sim) list"
  settings_use_proxy :: bool
  settings_proxy_session :: string
  prompt_window :: string

subsection \<open>Proxy resolution (lines 85--91)\<close>

definition resolve_proxy :: "bool \<Rightarrow> string \<Rightarrow> device \<Rightarrow> string option" where
  "resolve_proxy use_proxy default_proxy_session device =
     (let proxy = (case py_getitem device ''Proxy Session'' of
                     Inl e \<Rightarrow> None
                   | Inr p \<Rightarrow> Some p)
      in if \<not> truthy proxy \<and> use_proxy then Some default_proxy_session else proxy)"

subsection \<open>Report section (lines 99--110)\<close>

text \<open>
  \<^verbatim>\<open>
  if matched_macs:
      output_file.write("### Device: {0} ###\n".format(hostname))
      output_file.write("VLAN    MAC                  PORT\n")
      for line in matched_macs:
          output_line = line[0]
          output_line += ' ' * (8 - len(line[0]))
          output_line += line[1]
          output_line += ' ' * (20 - len(line[1]))
          output_line += line[2]
          output_file.write("{}\n".format(output_line))
      output_file.write("\n\n")
      output_file.flush()
  \<close>
  A negative repeat count gives the empty string, as truncated subtraction does here. The
  report file is open for the whole loop; a \<^verbatim>\<open>write\<close> to it and its \<^verbatim>\<open>flush\<close> are calls that
  return.
\<close>

definition format_row :: "string list \<Rightarrow> exn + string" where
  "format_row line =
     (case py_index line 0 of
        Inl e \<Rightarrow> Inl e
      | Inr f0 \<Rightarrow>
     (case py_index line 1 of
        Inl e \<Rightarrow> Inl e
      | Inr f1 \<Rightarrow>
     (case py_index line 2 of
        Inl e \<Rightarrow> Inl e
      | Inr f2 \<Rightarrow>
          Inr (f0 @ replicate (8 - length f0) CHR '' '' @
               f1 @ replicate (20 - length f1) CHR '' '' @ f2))))"

definition write_report :: "string \<Rightarrow> unit io" where
  "write_report s = io_call (EvWriteReport s) (Inr ())"

fun write_rows :: "string list list \<Rightarrow> unit io" where
  "write_rows [] = io_return ()"
| "write_rows (line # rest) =
     io_bind (io_lift (format_row line)) (\<lambda>output_line.
     io_bind (write_report (output_line @ ''\<newline>'')) (\<lambda>_.
     write_rows rest))"

definition write_section :: "string \<Rightarrow> string list list \<Rightarrow> unit io" where
  "write_section host matched_macs =
     io_bind (write_report (''### Device: '' @ host @ '' ###\<newline>'')) (\<lambda>_.
     io_bind (write_report ''VLAN    MAC                  PORT\<newline>'') (\<lambda>_.
     io_bind (write_rows matched_macs) (\<lambda>_.
     io_bind (write_report ''\<newline>\<newline>'') (\<lambda>_.
     io_call EvFlushReport (Inr ())))))"

subsection \<open>One iteration of the device loop (lines 80--122)\<close>

text \<open>
  The body of the \<^verbatim>\<open>try\<close>. The variable \<^verbatim>\<open>hostname\<close> is reassigned when
  \<^verbatim>\<open>per_device_work\<close> returns, and the handlers read it afterwards, so the block returns
  the value the variable has when the block is left, with the outcome.
\<close>

definition try_block ::
  "library \<Rightarrow> int set \<Rightarrow> device_sim \<Rightarrow> string \<Rightarrow> string \<Rightarrow> string \<Rightarrow> string \<Rightarrow> string \<Rightarrow>
   string option \<Rightarrow> string \<times> unit io" where
  "try_block lib vset sim host username password protocol enable proxy =
     (case io_call (EvConnect host username password protocol proxy)
             (raises (connect_result sim)) of
        (Inl e, tr) \<Rightarrow> (host, (Inl e, tr))
      | (Inr u, tr) \<Rightarrow>
          (case per_device_work lib (main_session sim) enable vset of
             (Inl e, tr') \<Rightarrow> (host, (Inl e, tr @ tr'))
           | (Inr (host', matched_macs), tr') \<Rightarrow>
               (host',
                io_bind (Inr (), tr @ tr') (\<lambda>_.
                io_bind (io_call EvDisconnect (raises (disconnect_result sim))) (\<lambda>_.
                if matched_macs \<noteq> [] then write_section host' matched_macs
                else io_return ())))))"

text \<open>
  The three \<^verbatim>\<open>except\<close> clauses:
  \<^verbatim>\<open>
  except scripts.ConnectError as e:
      with open(failed_log, 'a') as logfile:
          logfile.write("<M_SCRIPT> Connect to {0} failed: {1}\n".format(hostname, e.message.strip()))
          session.disconnect()
  \<close>
  and likewise for \<^verbatim>\<open>InteractionError\<close> and \<^verbatim>\<open>UnsupportedOSError\<close>. A handler appends one
  line to the failure log and then calls \<^verbatim>\<open>session.disconnect()\<close>; neither call stands in a
  \<^verbatim>\<open>try\<close>, so an exception raised by one of them leaves the handler, and with it the loop,
  and a failed append skips the disconnect. Any other exception of the \<^verbatim>\<open>try\<close> block is not
  caught.
\<close>

definition log_failure :: "device_sim \<Rightarrow> string \<Rightarrow> unit io" where
  "log_failure sim line =
     io_bind (io_call (EvAppendLog line) (raises (log_append_result sim))) (\<lambda>_.
     io_call EvSessionDisconnect (raises (session_disconnect_result sim)))"

definition handle_failure :: "device_sim \<Rightarrow> string \<times> unit io \<Rightarrow> unit io" where
  "handle_failure sim blk =
     (case blk of (host, (r, tr)) \<Rightarrow>
        (case r of
           Inr u \<Rightarrow> (Inr (), tr)
         | Inl (ConnectError message) \<Rightarrow>
             io_bind (Inr (), tr) (\<lambda>_.
             log_failure sim (''<M_SCRIPT> Connect to '' @ host @ '' failed: '' @
                              py_strip message @ ''\<newline>''))
         | Inl (InteractionError message) \<Rightarrow>
             io_bind (Inr (), tr) (\<lambda>_.
             log_failure sim (''<M_SCRIPT> Failure on '' @ host @ '': '' @
                              py_strip message @ ''\<newline>''))
         | Inl (UnsupportedOSError message) \<Rightarrow>
             io_bind (Inr (), tr) (\<lambda>_.
             log_failure sim (''<M_SCRIPT> Unsupported OS on '' @ host @ '': '' @
                              py_strip message @ ''\<newline>''))
         | Inl e \<Rightarrow> (Inl e, tr)))"

definition device_iteration ::
  "library \<Rightarrow> bool \<Rightarrow> string \<Rightarrow> int set \<Rightarrow> device \<times> device_sim \<Rightarrow> unit io" where
  "device_iteration lib use_proxy default_proxy_session vset d =
     (case d of (device, sim) \<Rightarrow>
     (case py_getitem device ''Hostname'' of Inl e \<Rightarrow> io_raise e | Inr host \<Rightarrow>
     (case py_getitem device ''Protocol'' of Inl e \<Rightarrow> io_raise e | Inr protocol \<Rightarrow>
     (case py_getitem device ''Username'' of Inl e \<Rightarrow> io_raise e | Inr username \<Rightarrow>
     (case py_getitem device ''Password'' of Inl e \<Rightarrow> io_raise e | Inr password \<Rightarrow>
     (case py_getitem device ''Enable'' of Inl e \<Rightarrow> io_raise e | Inr enable \<Rightarrow>
        (let proxy = resolve_proxy use_proxy default_proxy_session device
         in handle_failure sim
              (try_block lib vset sim host username password protocol enable proxy))))))))"

fun device_loop ::
  "library \<Rightarrow> bool \<Rightarrow> string \<Rightarrow> int set \<Rightarrow> (device \<times> device_sim) list \<Rightarrow> unit io" where
  "device_loop lib use_proxy default_proxy_session vset [] = io_return ()"
| "device_loop lib use_proxy default_proxy_session vset (d # rest) =
     io_bind (device_iteration lib use_proxy default_proxy_session vset d) (\<lambda>_.
     device_loop lib use_proxy default_proxy_session vset rest)"

subsection \<open>\<^verbatim>\<open>script_main\<close>\<close>

text \<open>
  \<^verbatim>\<open>with open(output_filename, 'w') as output_file\<close>: the report is opened, and closed
  when the block is left, normally or by an exception.
\<close>

definition with_report :: "'a io \<Rightarrow> 'a io" where
  "with_report m = (case m of (r, tr) \<Rightarrow> (r, [EvOpenReport] @ tr @ [EvCloseReport]))"

definition script_main :: "library \<Rightarrow> script \<Rightarrow> unit io" where
  "script_main lib scr =
     (if is_connected scr
      then io_raise (ScriptError ''This script must be launched in a not-connected tab.'')
      else
        io_bind (io_call EvImportDeviceList (Inr (import_device_list scr))) (\<lambda>device_list.
        if device_list = [] then io_return ()
        else
          (let use_proxy = settings_use_proxy scr;
               default_proxy_session = settings_proxy_session scr
           in
           io_bind (io_call EvPromptWindow (Inr (prompt_window scr))) (\<lambda>num_string.
           if num_string = [] then io_return ()
           else
             io_bind (io_lift (expand_number_range lib num_string)) (\<lambda>numbers.
             let vset = set numbers
             in with_report
                  (io_bind (write_report (''MAC ADDRESS SEARCH IN VLANS: '' @ num_string @
                                          ''\<newline>\<newline>'')) (\<lambda>_.
                   device_loop lib use_proxy default_proxy_session vset device_list)))))))"


section \<open>Vocabulary of the properties\<close>

subsection \<open>Reading a trace\<close>

fun log_line :: "event \<Rightarrow> string list" where
  "log_line (EvAppendLog s) = [s]"
| "log_line _ = []"

definition log_lines :: "event list \<Rightarrow> string list" where
  "log_lines tr = concat (map log_line tr)"

fun is_report_event :: "event \<Rightarrow> bool" where
  "is_report_event EvOpenReport = True"
| "is_report_event (EvWriteReport s) = True"
| "is_report_event EvFlushReport = True"
| "is_report_event EvCloseReport = True"
| "is_report_event _ = False"

definition report_events :: "event list \<Rightarrow> event list" where
  "report_events tr = filter is_report_event tr"

fun command_of :: "event \<Rightarrow> string list" where
  "command_of (EvCommand c) = [c]"
| "command_of _ = []"

definition commands :: "event list \<Rightarrow> string list" where
  "commands tr = concat (map command_of tr)"

fun connected_host :: "event \<Rightarrow> string list" where
  "connected_host (EvConnect host username password protocol proxy) = [host]"
| "connected_host _ = []"

definition connects :: "event list \<Rightarrow> string list" where
  "connects tr = concat (map connected_host tr)"

subsection \<open>The filter and the resolver\<close>

text \<open>
  The condition under which the filter loop appends a record (lines 181--193): the
  vlan-field parses as an integer of the target set, and the normalized interface in lower
  case differs from the uplink of that vlan, trimmed and in lower case, where a vlan without
  an uplink has the uplink \<^verbatim>\<open>""\<close> (line 189).
\<close>

definition filter_keeps ::
  "(string \<Rightarrow> string) \<Rightarrow> int set \<Rightarrow> (int \<rightharpoonup> string) \<Rightarrow> string list \<Rightarrow> bool" where
  "filter_keeps lin vset exclude entry \<longleftrightarrow>
     (case py_int (entry ! 0) of
        Inl e \<Rightarrow> False
      | Inr vlan \<Rightarrow>
          vlan \<in> vset \<and>
          py_lower (lin (entry ! 2)) \<noteq>
            py_lower (py_strip (case exclude vlan of None \<Rightarrow> [] | Some u \<Rightarrow> u)))"

text \<open>
  The condition as section 4.5 of the spec words it: a record is kept when its vlan-field
  parses as an integer of the target set and its normalized interface differs, case
  apart, from the uplink of that vlan; a vlan without an uplink excludes nothing.
\<close>

definition claimed_keeps ::
  "(string \<Rightarrow> string) \<Rightarrow> int set \<Rightarrow> (int \<rightharpoonup> string) \<Rightarrow> string list \<Rightarrow> bool" where
  "claimed_keeps lin vset exclude entry \<longleftrightarrow>
     (case py_int (entry ! 0) of
        Inl e \<Rightarrow> False
      | Inr vlan \<Rightarrow>
          vlan \<in> vset \<and>
          (case exclude vlan of
             None \<Rightarrow> True
           | Some u \<Rightarrow> py_lower (lin (entry ! 2)) \<noteq> py_lower (py_strip u)))"

text \<open>
  Section 4.4: a record contributes the entry \<open>vlan \<mapsto> normalized root port\<close> when the
  normalized root port is not empty, and nothing otherwise; later entries win.
\<close>

definition spec_uplink_entry :: "(string \<Rightarrow> string) \<Rightarrow> string list \<Rightarrow> (int \<times> string) list" where
  "spec_uplink_entry lin entry =
     (case label_vlan (entry ! 0) of
        Inl e \<Rightarrow> []
      | Inr vlan \<Rightarrow>
          (if py_strip (lin (entry ! 6)) \<noteq> [] then [(vlan, py_strip (lin (entry ! 6)))] else []))"

definition spec_uplink_map :: "(string \<Rightarrow> string) \<Rightarrow> string list list \<Rightarrow> (int \<rightharpoonup> string)" where
  "spec_uplink_map lin root_results = map_of (rev (concat (map (spec_uplink_entry lin) root_results)))"

subsection \<open>The report\<close>

text \<open>\<^verbatim>\<open>s.ljust(n)\<close>: left-justified, padded with spaces to width \<open>n\<close>, never cut.\<close>

definition ljust :: "nat \<Rightarrow> string \<Rightarrow> string" where
  "ljust n s = s @ replicate (n - length s) CHR '' ''"

text \<open>A row of the table: the vlan padded to width 8, the mac to width 20, the port as it is.\<close>

definition table_row :: "string list \<Rightarrow> string" where
  "table_row entry = ljust 8 (entry ! 0) @ ljust 20 (entry ! 1) @ entry ! 2"

text \<open>
  A title row of the table: \<open>VLAN\<close> padded to width 8, then \<open>MAC\<close>, then \<open>PORT\<close> after \<open>gap\<close>
  spaces. The rows of the table have their port at column 28, which a title row has with the
  gap 17; that is the title row of section 4.7, whose columns are padded to 8 and 20.
\<close>

definition title_row :: "nat \<Rightarrow> string" where
  "title_row gap = ljust 8 ''VLAN'' @ ''MAC'' @ replicate gap CHR '' '' @ ''PORT''"

definition claimed_title_row :: string where
  "claimed_title_row = ljust 8 ''VLAN'' @ ljust 20 ''MAC'' @ ''PORT''"

text \<open>
  The writes of one section, with the title row and the separator as parameters: the device
  line, the title row, one row per matched entry, the separator, and the flush.
\<close>

definition section_events :: "string \<Rightarrow> string \<Rightarrow> string \<Rightarrow> string list list \<Rightarrow> event list" where
  "section_events title separator host matched =
     [EvWriteReport (''### Device: '' @ host @ '' ###\<newline>''),
      EvWriteReport (title @ ''\<newline>'')] @
     map (\<lambda>entry. EvWriteReport (table_row entry @ ''\<newline>'')) matched @
     [EvWriteReport separator, EvFlushReport]"

text \<open>The text that a sequence of events puts into the report file.\<close>

fun written :: "event \<Rightarrow> string" where
  "written (EvWriteReport s) = s"
| "written _ = []"

definition report_text :: "event list \<Rightarrow> string" where
  "report_text tr = concat (map written tr)"

text \<open>
  The report as section 4.7 of the spec words it, for the devices that have a non-empty
  match sequence: the header line and a blank line; then per device the device line, the
  title row with its columns padded to 8 and 20, the rows, and one blank separator line.
\<close>

definition claimed_report :: "string \<Rightarrow> (string \<times> string list list) list \<Rightarrow> string" where
  "claimed_report range_string sections =
     ''MAC ADDRESS SEARCH IN VLANS: '' @ range_string @ ''\<newline>'' @ ''\<newline>'' @
     concat (map (\<lambda>(host, matched).
                    report_text (section_events claimed_title_row ''\<newline>'' host matched))
                 sections)"

definition required_keys :: "string list" where
  "required_keys = [''Hostname'', ''Protocol'', ''Username'', ''Password'', ''Enable'']"

definition has_required_keys :: "device \<Rightarrow> bool" where
  "has_required_keys device \<longleftrightarrow> list_all (\<lambda>k. device k \<noteq> None) required_keys"

text \<open>
  The result of a device: the hostname and the match sequence when connecting, collecting
  and disconnecting all succeeded, nothing otherwise.
\<close>

definition device_result ::
  "library \<Rightarrow> int set \<Rightarrow> device \<times> device_sim \<Rightarrow> (string \<times> string list list) option" where
  "device_result lib vset d =
     (case d of (device, sim) \<Rightarrow>
        if has_required_keys device \<and> connect_result sim = None \<and>
           disconnect_result sim = None
        then (case fst (per_device_work lib (main_session sim) (the (device ''Enable'')) vset) of
                Inl e \<Rightarrow> None
              | Inr res \<Rightarrow> Some res)
        else None)"

text \<open>
  What a device contributes to the report: nothing when it has no result or an empty match
  sequence, one section otherwise.
\<close>

definition device_section ::
  "string \<Rightarrow> string \<Rightarrow> library \<Rightarrow> int set \<Rightarrow> device \<times> device_sim \<Rightarrow> event list" where
  "device_section title separator lib vset d =
     (case device_result lib vset d of
        None \<Rightarrow> []
      | Some (host, matched) \<Rightarrow>
          if matched \<noteq> [] then section_events title separator host matched else [])"

subsection \<open>The outcome of processing one device\<close>

text \<open>
  The outcome of the \<^verbatim>\<open>try\<close> block for a device record that has the required columns,
  and the outcomes for which \<^verbatim>\<open>script_main\<close> has an \<^verbatim>\<open>except\<close> clause.
\<close>

definition processing ::
  "library \<Rightarrow> bool \<Rightarrow> string \<Rightarrow> int set \<Rightarrow> device \<times> device_sim \<Rightarrow> exn + unit" where
  "processing lib use_proxy default_proxy_session vset d =
     (case d of (device, sim) \<Rightarrow>
        fst (snd (try_block lib vset sim (the (device ''Hostname'')) (the (device ''Username''))
                    (the (device ''Password'')) (the (device ''Protocol''))
                    (the (device ''Enable''))
                    (resolve_proxy use_proxy default_proxy_session device))))"

fun handled_failure :: "exn + unit \<Rightarrow> bool" where
  "handled_failure (Inl (ConnectError m)) = True"
| "handled_failure (Inl (InteractionError m)) = True"
| "handled_failure (Inl (UnsupportedOSError m)) = True"
| "handled_failure _ = False"

text \<open>The two calls of an \<^verbatim>\<open>except\<close> clause return normally for this device.\<close>

definition handler_returns :: "device_sim \<Rightarrow> bool" where
  "handler_returns sim \<longleftrightarrow>
     log_append_result sim = None \<and> session_disconnect_result sim = None"


section \<open>Concrete runs\<close>

text \<open>
  A small fleet on which the theorems are instantiated. The parser of the demonstration
  library looks the captured text up in a table; the normalizer is the one modelled from
  the spec.
\<close>

definition demo_outputs :: "(string \<times> string list list) list" where
  "demo_outputs =
     [(''stp sw1'', [[''VLAN0010'', ''32778'', ''0011.2233.4455'', ''4'', ''2'', ''20'',
                      ''Gi1/0/1'']]),
      (''mac sw1'', [[''10'', ''aaaa.bbbb.cccc'', ''Gi1/0/1''],
                     [''10'', ''dddd.eeee.ffff'', ''Fa0/2''],
                     [''20'', ''1111.2222.3333'', ''Fa0/3'']]),
      (''stp sw4'', [[''VLAN'', ''32778'', ''0011.2233.4455'', ''4'', ''2'', ''20'',
                      ''Gi1/0/1'']]),
      (''stp sw5'', [[''MST0000'', ''32778'', ''0011.2233.4455'', ''4'', ''2'', ''20'',
                      ''Gi1/0/1'']]),
      (''mac sw5'', [[''10'', ''dddd.eeee.ffff'', ''Fa0/2'']]),
      (''mac sw7'', [[''10'', ''0000.0000.0001'', ''Fa0/9'']]),
      (''mac-legacy sw7'', [[''10'', ''0000.0000.0001'', ''Fa0/9''],
                            [''10'', ''0000.0000.0002'', ''Fa0/8'']])]"

definition demo_library :: library where
  "demo_library =
     \<lparr>long_int_name = normalize_interface,
      textfsm_parse_to_list =
        (\<lambda>raw template_file. case map_of demo_outputs raw of None \<Rightarrow> [] | Some rs \<Rightarrow> rs),
      get_template = (\<lambda>name. name),
      expand_number_range = (\<lambda>s. if s = ''10'' then Inr [10] else Inl ValueError)\<rparr>"

definition demo_session :: "string \<Rightarrow> string \<Rightarrow> session" where
  "demo_session os_tag name =
     \<lparr>os = os_tag, hostname = name, start_cisco_session = None,
      get_command_output =
        (\<lambda>cmd. if cmd = ''show spanning-tree root'' then Inr (''stp '' @ name)
               else if cmd = ''show mac address-table'' then Inr (''mac '' @ name)
               else if cmd = ''show mac-address-table dynamic'' then Inr (''mac-legacy '' @ name)
               else Inl (InteractionError ''unknown command'')),
      end_cisco_session = None\<rparr>"

definition demo_device :: "string \<Rightarrow> device" where
  "demo_device name =
     [''Hostname'' \<mapsto> name, ''Protocol'' \<mapsto> ''SSH2'', ''Username'' \<mapsto> ''admin'',
      ''Password'' \<mapsto> ''secret'', ''Enable'' \<mapsto> ''enable'']"

definition reachable :: "string \<Rightarrow> string \<Rightarrow> device \<times> device_sim" where
  "reachable os_tag name =
     (demo_device name,
      \<lparr>connect_result = None, main_session = demo_session os_tag name,
       disconnect_result = None, log_append_result = None,
       session_disconnect_result = None\<rparr>)"

definition unreachable :: "string \<Rightarrow> device \<times> device_sim" where
  "unreachable name =
     (demo_device name,
      \<lparr>connect_result = Some (ConnectError '' timed out ''),
       main_session = demo_session ''IOS'' name, disconnect_result = None,
       log_append_result = None, session_disconnect_result = None\<rparr>)"

text \<open>A device of an OS family that \<^verbatim>\<open>start_cisco_session\<close> refuses.\<close>

definition unsupported :: "string \<Rightarrow> device \<times> device_sim" where
  "unsupported name =
     (demo_device name,
      \<lparr>connect_result = None,
       main_session = (demo_session ''ASA'' name)
         \<lparr>start_cisco_session := Some (UnsupportedOSError ''ASA is not supported'')\<rparr>,
       disconnect_result = None, log_append_result = None,
       session_disconnect_result = None\<rparr>)"

text \<open>
  A device whose connection drops during the work: the MAC table command times out, and
  \<open>after\<close> is what \<^verbatim>\<open>session.disconnect()\<close> does in the handler.
\<close>

definition dropped :: "string \<Rightarrow> exn option \<Rightarrow> device \<times> device_sim" where
  "dropped name after =
     (demo_device name,
      \<lparr>connect_result = None,
       main_session = (demo_session ''IOS'' name)
         \<lparr>get_command_output :=
            (\<lambda>cmd. if cmd = ''show spanning-tree root'' then Inr (''stp '' @ name)
                   else Inl (InteractionError ''timeout''))\<rparr>,
       disconnect_result = None, log_append_result = None,
       session_disconnect_result = after\<rparr>)"

text \<open>
  The variables of the filter for a parsed MAC table of one record, in the target vlan
  10, whose interface field is empty, with no uplink known for any vlan.
\<close>

definition blank_interface_locals :: locals where
  "blank_interface_locals =
     \<lparr>fsm_results = [[''10'', ''aaaa.bbbb.cccc'', '''']],
      vlan_set = {10}, exclude_ports = Map.empty, results = []\<rparr>"

definition demo_script :: "bool \<Rightarrow> (device \<times> device_sim) list \<Rightarrow> script" where
  "demo_script connected devs =
     \<lparr>is_connected = connected, import_device_list = devs, settings_use_proxy = False,
      settings_proxy_session = ''jumpbox'', prompt_window = ''10''\<rparr>"


section \<open>Basic facts\<close>

lemmas py_defs = py_index_def py_getitem_def py_int_def py_strip_def is_space_def all_digits_def
  is_digit_def dec_val_def digit_val_def py_lower_def lower_char_def is_alpha_def

lemmas io_defs = io_bind_def io_call_def io_return_def io_raise_def io_lift_def raises_def

lemma normalize_Gi: "normalize_interface ''Gi1/0/1'' = ''gigabitethernet1/0/1''"
  by (simp add: normalize_interface_def interface_aliases_def py_defs)

text \<open>The two representations of one interface in the spec's test normalize alike.\<close>

lemma normalize_long_form:
  "normalize_interface '' GigabitEthernet1/0/1 '' = normalize_interface ''Gi1/0/1''"
  by code_simp

lemma normalize_Fa: "normalize_interface ''Fa0/2'' = ''Fa0/2''"
  by (simp add: normalize_interface_def interface_aliases_def py_defs)

lemma label_vlan_0010: "label_vlan ''VLAN0010'' = Inr 10"
  by (simp add: label_vlan_def py_defs)

lemma py_int_error: "py_int s = Inl e \<Longrightarrow> e = ValueError"
  by (auto simp: py_int_def split: list.splits if_splits)


section \<open>The MAC table filter\<close>

lemma filter_step_wf:
  "3 \<le> length entry \<Longrightarrow>
   filter_step lin st entry =
     Inr (if filter_keeps lin (vlan_set st) (exclude_ports st) entry
          then st\<lparr>results := results st @ [entry]\<rparr> else st)"
  by (auto simp: filter_step_def filter_keeps_def py_index_def py_getitem_def py_int_def Let_def
      split: sum.splits option.splits list.splits if_splits)

lemma filter_loop_wf:
  "\<forall>entry\<in>set es. 3 \<le> length entry \<Longrightarrow>
   filter_loop lin st es =
     Inr (st\<lparr>results :=
              results st @ filter (filter_keeps lin (vlan_set st) (exclude_ports st)) es\<rparr>)"
  by (induction es arbitrary: st) (simp_all add: filter_step_wf)

lemma mac_filter_wf:
  "\<forall>entry\<in>set (fsm_results st). 3 \<le> length entry \<Longrightarrow>
   mac_filter lin st =
     Inr (st\<lparr>results := filter (filter_keeps lin (vlan_set st) (exclude_ports st)) (fsm_results st)\<rparr>)"
  by (simp add: mac_filter_def filter_loop_wf)

lemma demo_filter_example:
  "\<not> filter_keeps normalize_interface {10} [10 \<mapsto> ''gigabitethernet1/0/1'']
       [''10'', ''aaaa.bbbb.cccc'', ''Gi1/0/1'']"
  "filter_keeps normalize_interface {10} [10 \<mapsto> ''gigabitethernet1/0/1'']
       [''10'', ''dddd.eeee.ffff'', ''Fa0/2'']"
  "\<not> filter_keeps normalize_interface {10} [10 \<mapsto> ''gigabitethernet1/0/1'']
       [''20'', ''1111.2222.3333'', ''Fa0/3'']"
  by (simp_all add: filter_keeps_def normalize_Gi normalize_Fa py_defs)

lemma filter_step_error: "filter_step lin st entry = Inl e \<Longrightarrow> e = IndexError"
  by (auto simp: filter_step_def py_index_def Let_def dest: py_int_error
      split: sum.splits if_splits)

lemma filter_loop_error: "filter_loop lin st es = Inl e \<Longrightarrow> e = IndexError"
  by (induction es arbitrary: st) (auto dest: filter_step_error split: sum.splits)

lemma filter_keeps_no_uplink:
  "py_int (entry ! 0) = Inr vlan \<Longrightarrow> vlan \<in> vset \<Longrightarrow> exclude vlan = None \<Longrightarrow>
   filter_keeps lin vset exclude entry \<longleftrightarrow> lin (entry ! 2) \<noteq> []"
  by (simp add: filter_keeps_def py_strip_def py_lower_def)

lemma filter_keeps_claimed:
  "lin (entry ! 2) \<noteq> [] \<Longrightarrow>
   filter_keeps lin vset exclude entry = claimed_keeps lin vset exclude entry"
  by (simp add: filter_keeps_def claimed_keeps_def py_strip_def py_lower_def
      split: sum.splits option.splits)

text \<open>
  C4 (as amended). For every sequence of parsed MAC-table records (each with at least the
  three fields vlan, mac, interface), every target VLAN set and every uplink map, the filter
  returns without an error, and its result is the sequence of the original records, in their
  original order, whose vlan-field parses as an integer of the target set and whose
  normalized interface differs in lower case from the uplink of that vlan, an absent uplink
  counting as the empty string. An absent uplink therefore excludes the records whose
  normalized interface is empty, and only those: for a record with a non-empty normalized
  interface the condition of the code is the condition of section 4.5. A record with a
  non-numeric vlan-field is dropped without an error (whatever the records are, the only
  exception the filter can raise is the \<^verbatim>\<open>IndexError\<close> of a record too short to have the
  field read). This holds for every normalizer. With target set \<open>{10}\<close>, uplink map
  \<open>{10: "gigabitethernet1/0/1"}\<close> and the three records of the spec's example, the result is
  exactly the record \<open>("10", "dddd.eeee.ffff", "Fa0/2")\<close>: for every normalizer that expands
  \<^verbatim>\<open>Gi1/0/1\<close> to \<^verbatim>\<open>GigabitEthernet1/0/1\<close> in whatever letter case and does not take \<^verbatim>\<open>Fa0/2\<close>
  to the same name, and so for the normalizer of section 4.2.
\<close>

theorem mac_filter_keeps_exactly:
  "(\<forall>st :: locals.
      (\<forall>entry\<in>set (fsm_results st). 3 \<le> length entry) \<longrightarrow>
      (\<exists>st'. mac_filter lin st = Inr st' \<and>
             results st' =
               filter (filter_keeps lin (vlan_set st) (exclude_ports st)) (fsm_results st))) \<and>
   (\<forall>(st :: locals) e. mac_filter lin st = Inl e \<longrightarrow> e = IndexError) \<and>
   (\<forall>vset exclude entry vlan.
      py_int (entry ! 0) = Inr vlan \<and> vlan \<in> vset \<and> exclude vlan = None \<longrightarrow>
      (filter_keeps lin vset exclude entry \<longleftrightarrow> lin (entry ! 2) \<noteq> [])) \<and>
   (\<forall>vset exclude entry.
      lin (entry ! 2) \<noteq> [] \<longrightarrow>
      filter_keeps lin vset exclude entry = claimed_keeps lin vset exclude entry) \<and>
   (py_lower (lin ''Gi1/0/1'') = ''gigabitethernet1/0/1'' \<and>
    py_lower (lin ''Fa0/2'') \<noteq> ''gigabitethernet1/0/1'' \<longrightarrow>
      (\<exists>st'. mac_filter lin
               \<lparr>fsm_results = [[''10'', ''aaaa.bbbb.cccc'', ''Gi1/0/1''],
                               [''10'', ''dddd.eeee.ffff'', ''Fa0/2''],
                               [''20'', ''1111.2222.3333'', ''Fa0/3'']],
                vlan_set = {10},
                exclude_ports = [10 \<mapsto> ''gigabitethernet1/0/1''],
                results = []\<rparr> = Inr st' \<and>
             results st' = [[''10'', ''dddd.eeee.ffff'', ''Fa0/2'']])) \<and>
   (\<exists>st'. mac_filter normalize_interface
            \<lparr>fsm_results = [[''10'', ''aaaa.bbbb.cccc'', ''Gi1/0/1''],
                            [''10'', ''dddd.eeee.ffff'', ''Fa0/2''],
                            [''20'', ''1111.2222.3333'', ''Fa0/3'']],
             vlan_set = {10},
             exclude_ports = [10 \<mapsto> ''gigabitethernet1/0/1''],
             results = []\<rparr> = Inr st' \<and>
          results st' = [[''10'', ''dddd.eeee.ffff'', ''Fa0/2'']])"
proof (intro conjI allI impI)
  fix st :: locals
  assume "\<forall>entry\<in>set (fsm_results st). 3 \<le> length entry"
  then show "\<exists>st'. mac_filter lin st = Inr st' \<and>
      results st' = filter (filter_keeps lin (vlan_set st) (exclude_ports st)) (fsm_results st)"
    by (simp add: mac_filter_wf)
next
  fix st :: locals and e
  assume "mac_filter lin st = Inl e"
  then show "e = IndexError"
    unfolding mac_filter_def by (rule filter_loop_error)
next
  fix vset :: "int set" and exclude :: "int \<rightharpoonup> string" and entry :: "string list" and vlan
  assume "py_int (entry ! 0) = Inr vlan \<and> vlan \<in> vset \<and> exclude vlan = None"
  then show "filter_keeps lin vset exclude entry \<longleftrightarrow> lin (entry ! 2) \<noteq> []"
    by (simp add: filter_keeps_no_uplink)
next
  fix vset :: "int set" and exclude :: "int \<rightharpoonup> string" and entry :: "string list"
  assume "lin (entry ! 2) \<noteq> []"
  then show "filter_keeps lin vset exclude entry = claimed_keeps lin vset exclude entry"
    by (rule filter_keeps_claimed)
next
  assume "py_lower (lin ''Gi1/0/1'') = ''gigabitethernet1/0/1'' \<and>
    py_lower (lin ''Fa0/2'') \<noteq> ''gigabitethernet1/0/1''"
  then have "\<not> filter_keeps lin {10} [10 \<mapsto> ''gigabitethernet1/0/1'']
       [''10'', ''aaaa.bbbb.cccc'', ''Gi1/0/1'']"
    "filter_keeps lin {10} [10 \<mapsto> ''gigabitethernet1/0/1'']
       [''10'', ''dddd.eeee.ffff'', ''Fa0/2'']"
    "\<not> filter_keeps lin {10} [10 \<mapsto> ''gigabitethernet1/0/1'']
       [''20'', ''1111.2222.3333'', ''Fa0/3'']"
    by (simp_all add: filter_keeps_def py_int_def py_strip_def is_space_def all_digits_def
        is_digit_def dec_val_def digit_val_def py_lower_def lower_char_def)
  then show "\<exists>st'. mac_filter lin
               \<lparr>fsm_results = [[''10'', ''aaaa.bbbb.cccc'', ''Gi1/0/1''],
                               [''10'', ''dddd.eeee.ffff'', ''Fa0/2''],
                               [''20'', ''1111.2222.3333'', ''Fa0/3'']],
                vlan_set = {10},
                exclude_ports = [10 \<mapsto> ''gigabitethernet1/0/1''],
                results = []\<rparr> = Inr st' \<and>
             results st' = [[''10'', ''dddd.eeee.ffff'', ''Fa0/2'']]"
    by (simp add: mac_filter_wf)
next
  show "\<exists>st'. mac_filter normalize_interface
            \<lparr>fsm_results = [[''10'', ''aaaa.bbbb.cccc'', ''Gi1/0/1''],
                            [''10'', ''dddd.eeee.ffff'', ''Fa0/2''],
                            [''20'', ''1111.2222.3333'', ''Fa0/3'']],
             vlan_set = {10},
             exclude_ports = [10 \<mapsto> ''gigabitethernet1/0/1''],
             results = []\<rparr> = Inr st' \<and>
          results st' = [[''10'', ''dddd.eeee.ffff'', ''Fa0/2'']]"
    by (simp add: mac_filter_wf demo_filter_example)
qed

theorem mac_filter_keeps_exactly_witness:
  "list_all (\<lambda>entry. 3 \<le> length entry)
      (fsm_results
        \<lparr>fsm_results = [[''10'', ''0000.0000.0001'', ''Fa0/9''],
                        [''All'', ''ffff.ffff.ffff'', ''CPU'']],
         vlan_set = {10}, exclude_ports = Map.empty, results = []\<rparr>) \<and>
   (\<exists>st'. mac_filter normalize_interface
        \<lparr>fsm_results = [[''10'', ''0000.0000.0001'', ''Fa0/9''],
                        [''All'', ''ffff.ffff.ffff'', ''CPU'']],
         vlan_set = {10}, exclude_ports = Map.empty, results = []\<rparr> = Inr st' \<and>
      results st' = [[''10'', ''0000.0000.0001'', ''Fa0/9'']]) \<and>
   py_int ([''10'', ''aaaa.bbbb.cccc'', ''''] ! 0) = Inr 10 \<and>
   normalize_interface ([''10'', ''aaaa.bbbb.cccc'', ''''] ! 2) = [] \<and>
   \<not> filter_keeps normalize_interface {10} Map.empty [''10'', ''aaaa.bbbb.cccc'', ''''] \<and>
   normalize_interface ([''10'', ''0000.0000.0001'', ''Fa0/9''] ! 2) \<noteq> [] \<and>
   filter_keeps normalize_interface {10} Map.empty [''10'', ''0000.0000.0001'', ''Fa0/9''] =
     claimed_keeps normalize_interface {10} Map.empty [''10'', ''0000.0000.0001'', ''Fa0/9''] \<and>
   py_lower (normalize_interface ''Gi1/0/1'') = ''gigabitethernet1/0/1'' \<and>
   py_lower (normalize_interface ''Fa0/2'') \<noteq> ''gigabitethernet1/0/1'' \<and>
   (\<exists>st'. mac_filter normalize_interface
        \<lparr>fsm_results = [[''10'', ''aaaa.bbbb.cccc'', ''Gi1/0/1''],
                        [''10'', ''dddd.eeee.ffff'', ''Fa0/2''],
                        [''20'', ''1111.2222.3333'', ''Fa0/3'']],
         vlan_set = {10},
         exclude_ports = [10 \<mapsto> ''gigabitethernet1/0/1''],
         results = []\<rparr> = Inr st' \<and>
      results st' = [[''10'', ''dddd.eeee.ffff'', ''Fa0/2'']])"
proof -
  let ?st = "\<lparr>fsm_results = [[''10'', ''0000.0000.0001'', ''Fa0/9''],
                            [''All'', ''ffff.ffff.ffff'', ''CPU'']],
         vlan_set = {10}, exclude_ports = Map.empty, results = []\<rparr>"
  let ?blank = "[''10'', ''aaaa.bbbb.cccc'', '''']"
  let ?fa = "[''10'', ''0000.0000.0001'', ''Fa0/9'']"
  note main = mac_filter_keeps_exactly [of normalize_interface]
  note run = main [THEN conjunct1]
  note no_uplink = main [THEN conjunct2, THEN conjunct2, THEN conjunct1]
  note agree = main [THEN conjunct2, THEN conjunct2, THEN conjunct2, THEN conjunct1]
  note example = main [THEN conjunct2, THEN conjunct2, THEN conjunct2, THEN conjunct2,
      THEN conjunct1]
  have wf: "\<forall>entry\<in>set (fsm_results ?st). 3 \<le> length entry"
    by simp
  have kept: "filter (filter_keeps normalize_interface (vlan_set ?st) (exclude_ports ?st))
      (fsm_results ?st) = [[''10'', ''0000.0000.0001'', ''Fa0/9'']]"
    by (simp add: filter_keeps_def normalize_interface_def interface_aliases_def py_defs)
  from run [THEN spec, THEN mp, OF wf]
  have "\<exists>st'. mac_filter normalize_interface ?st = Inr st' \<and>
      results st' = filter (filter_keeps normalize_interface (vlan_set ?st) (exclude_ports ?st))
        (fsm_results ?st)" .
  with kept have general: "\<exists>st'. mac_filter normalize_interface ?st = Inr st' \<and>
      results st' = [[''10'', ''0000.0000.0001'', ''Fa0/9'']]"
    by simp
  have b1: "py_int (?blank ! 0) = Inr 10"
    and b2: "normalize_interface (?blank ! 2) = []"
    and f2: "normalize_interface (?fa ! 2) \<noteq> []"
    by code_simp+
  have b3: "py_int (?blank ! 0) = Inr 10 \<and> (10 :: int) \<in> {10} \<and> Map.empty (10 :: int) = None"
    using b1 by simp
  from no_uplink [rule_format, OF b3] b2
  have blank: "\<not> filter_keeps normalize_interface {10} Map.empty ?blank"
    by simp
  from agree [rule_format, OF f2]
  have same: "filter_keeps normalize_interface {10} Map.empty ?fa =
      claimed_keeps normalize_interface {10} Map.empty ?fa" .
  have gi: "py_lower (normalize_interface ''Gi1/0/1'') = ''gigabitethernet1/0/1''"
    and fa: "py_lower (normalize_interface ''Fa0/2'') \<noteq> ''gigabitethernet1/0/1''"
    by code_simp+
  from example gi fa
  have ex: "\<exists>st'. mac_filter normalize_interface
        \<lparr>fsm_results = [[''10'', ''aaaa.bbbb.cccc'', ''Gi1/0/1''],
                        [''10'', ''dddd.eeee.ffff'', ''Fa0/2''],
                        [''20'', ''1111.2222.3333'', ''Fa0/3'']],
         vlan_set = {10},
         exclude_ports = [10 \<mapsto> ''gigabitethernet1/0/1''],
         results = []\<rparr> = Inr st' \<and>
      results st' = [[''10'', ''dddd.eeee.ffff'', ''Fa0/2'']]"
    by blast
  have wf': "list_all (\<lambda>entry. 3 \<le> length entry) (fsm_results ?st)"
    by simp
  show ?thesis
    apply (intro conjI)
             apply (rule wf')
            apply (rule general)
           apply (rule b1)
          apply (rule b2)
         apply (rule blank)
        apply (rule f2)
       apply (rule same)
      apply (rule gi)
     apply (rule fa)
    apply (rule ex)
    done
qed

text \<open>
  The claim as stated fails where it says that an absent uplink excludes nothing. The
  parsed table has the one record \<open>("10", "aaaa.bbbb.cccc", "")\<close>, the target set is
  \<open>{10}\<close> and no vlan has an uplink: the record is in the target set and no uplink excludes
  it, so the condition of section 4.5 keeps it; the filter compares its empty interface with
  the empty string that stands for the absent uplink, finds them equal and returns nothing.
\<close>

theorem mac_filter_counterexample:
  "exclude_ports blank_interface_locals 10 = None \<and>
   filter (claimed_keeps normalize_interface (vlan_set blank_interface_locals)
             (exclude_ports blank_interface_locals))
     (fsm_results blank_interface_locals) = [[''10'', ''aaaa.bbbb.cccc'', '''']] \<and>
   (case mac_filter normalize_interface blank_interface_locals of
      Inl e \<Rightarrow> None
    | Inr st' \<Rightarrow> Some (results st')) = Some []"
  by code_simp

lemma filter_step_frame:
  "filter_step lin st entry = Inr st' \<Longrightarrow> st' = st\<lparr>results := results st'\<rparr>"
  by (auto simp: filter_step_def Let_def split: sum.splits if_splits)

lemma filter_loop_frame:
  "filter_loop lin st es = Inr st' \<Longrightarrow> st' = st\<lparr>results := results st'\<rparr>"
proof (induction es arbitrary: st)
  case Nil
  then show ?case by simp
next
  case (Cons e es)
  from Cons.prems obtain st1 where s1: "filter_step lin st e = Inr st1"
    and s2: "filter_loop lin st1 es = Inr st'"
    by (auto split: sum.splits)
  have "st1 = st\<lparr>results := results st1\<rparr>"
    using s1 by (rule filter_step_frame)
  moreover have "st' = st1\<lparr>results := results st'\<rparr>"
    using s2 by (rule Cons.IH)
  ultimately have "st' = (st\<lparr>results := results st1\<rparr>)\<lparr>results := results st'\<rparr>"
    by simp
  then show ?case by simp
qed

text \<open>
  C8. The filter is a function of its three inputs and changes none of them. Its outcome
  does not depend on what the result variable held before the run; when it returns, the
  parsed records, the target VLAN set and the uplink map are what they were, only the result
  list is new; and running the filter a second time, on the variables as the first run left
  them, returns the same state again, so the same output.
\<close>

theorem mac_filter_idempotent:
  "(\<forall>previous. mac_filter lin (st\<lparr>results := previous\<rparr>) = mac_filter lin st) \<and>
   (\<forall>st'. mac_filter lin st = Inr st' \<longrightarrow>
      fsm_results st' = fsm_results st \<and> vlan_set st' = vlan_set st \<and>
      exclude_ports st' = exclude_ports st \<and> mac_filter lin st' = Inr st')"
proof (rule conjI)
  show "\<forall>previous. mac_filter lin (st\<lparr>results := previous\<rparr>) = mac_filter lin st"
    by (simp add: mac_filter_def)
next
  show "\<forall>st'. mac_filter lin st = Inr st' \<longrightarrow>
      fsm_results st' = fsm_results st \<and> vlan_set st' = vlan_set st \<and>
      exclude_ports st' = exclude_ports st \<and> mac_filter lin st' = Inr st'"
  proof (intro allI impI)
    fix st'
    assume run: "mac_filter lin st = Inr st'"
    then have "st' = (st\<lparr>results := []\<rparr>)\<lparr>results := results st'\<rparr>"
      unfolding mac_filter_def by (rule filter_loop_frame)
    then have frame: "st' = st\<lparr>results := results st'\<rparr>"
      by simp
    have f1: "fsm_results st' = fsm_results st"
      by (subst frame) simp
    have f2: "vlan_set st' = vlan_set st"
      by (subst frame) simp
    have f3: "exclude_ports st' = exclude_ports st"
      by (subst frame) simp
    have "st'\<lparr>results := []\<rparr> = st\<lparr>results := []\<rparr>"
      by (subst frame) simp
    then have "mac_filter lin st' = mac_filter lin st"
      by (simp add: mac_filter_def f1)
    with run f1 f2 f3 show "fsm_results st' = fsm_results st \<and> vlan_set st' = vlan_set st \<and>
        exclude_ports st' = exclude_ports st \<and> mac_filter lin st' = Inr st'"
      by simp
  qed
qed

theorem mac_filter_idempotent_witness:
  "mac_filter normalize_interface
     \<lparr>fsm_results = [[''10'', ''aaaa.bbbb.cccc'', ''Gi1/0/1''], [''10'', ''dddd.eeee.ffff'', ''Fa0/2'']],
      vlan_set = {10}, exclude_ports = [10 \<mapsto> ''gigabitethernet1/0/1''], results = []\<rparr> =
   Inr \<lparr>fsm_results = [[''10'', ''aaaa.bbbb.cccc'', ''Gi1/0/1''], [''10'', ''dddd.eeee.ffff'', ''Fa0/2'']],
        vlan_set = {10}, exclude_ports = [10 \<mapsto> ''gigabitethernet1/0/1''],
        results = [[''10'', ''dddd.eeee.ffff'', ''Fa0/2'']]\<rparr> \<and>
   mac_filter normalize_interface
     \<lparr>fsm_results = [[''10'', ''aaaa.bbbb.cccc'', ''Gi1/0/1''], [''10'', ''dddd.eeee.ffff'', ''Fa0/2'']],
      vlan_set = {10}, exclude_ports = [10 \<mapsto> ''gigabitethernet1/0/1''],
      results = [[''10'', ''dddd.eeee.ffff'', ''Fa0/2'']]\<rparr> =
   Inr \<lparr>fsm_results = [[''10'', ''aaaa.bbbb.cccc'', ''Gi1/0/1''], [''10'', ''dddd.eeee.ffff'', ''Fa0/2'']],
        vlan_set = {10}, exclude_ports = [10 \<mapsto> ''gigabitethernet1/0/1''],
        results = [[''10'', ''dddd.eeee.ffff'', ''Fa0/2'']]\<rparr>"
proof -
  have run: "mac_filter normalize_interface
     \<lparr>fsm_results = [[''10'', ''aaaa.bbbb.cccc'', ''Gi1/0/1''], [''10'', ''dddd.eeee.ffff'', ''Fa0/2'']],
      vlan_set = {10}, exclude_ports = [10 \<mapsto> ''gigabitethernet1/0/1''], results = []\<rparr> =
   Inr \<lparr>fsm_results = [[''10'', ''aaaa.bbbb.cccc'', ''Gi1/0/1''], [''10'', ''dddd.eeee.ffff'', ''Fa0/2'']],
        vlan_set = {10}, exclude_ports = [10 \<mapsto> ''gigabitethernet1/0/1''],
        results = [[''10'', ''dddd.eeee.ffff'', ''Fa0/2'']]\<rparr>"
    by (simp add: mac_filter_wf demo_filter_example)
  from mac_filter_idempotent [of normalize_interface] run show ?thesis by simp
qed


section \<open>The uplink resolver\<close>

lemma uplink_step_wf:
  "7 \<le> length entry \<Longrightarrow> label_vlan (entry ! 0) = Inr vlan \<Longrightarrow>
   uplink_step lin exclude entry = Inr (exclude ++ map_of (rev (spec_uplink_entry lin entry)))"
  by (auto simp: uplink_step_def spec_uplink_entry_def py_index_def Let_def)

lemma uplink_loop_wf:
  "\<forall>entry\<in>set records. 7 \<le> length entry \<and> (\<exists>vlan. label_vlan (entry ! 0) = Inr vlan) \<Longrightarrow>
   uplink_loop lin exclude records =
     Inr (exclude ++ map_of (rev (concat (map (spec_uplink_entry lin) records))))"
proof (induction records arbitrary: exclude)
  case Nil
  then show ?case by simp
next
  case (Cons entry records)
  then obtain vlan where "7 \<le> length entry" "label_vlan (entry ! 0) = Inr vlan"
    by auto
  then have "uplink_step lin exclude entry =
      Inr (exclude ++ map_of (rev (spec_uplink_entry lin entry)))"
    by (rule uplink_step_wf)
  with Cons show ?case by simp
qed

lemma resolve_uplinks_example:
  "resolve_uplinks normalize_interface [[''VLAN0010'', a, b, c, d, e, ''Gi1/0/1'']] =
     Inr [10 \<mapsto> ''gigabitethernet1/0/1'']"
  by (simp add: resolve_uplinks_def uplink_step_def label_vlan_0010 normalize_Gi py_index_def
      py_strip_def is_space_def)

text \<open>
  C7. For every sequence of spanning-tree-root records in which each record has its seven
  fields and a label from which the code extracts a vlan id, the resolver returns the
  uplink map of section 4.4: each record with a non-empty normalized root port maps its vlan
  id to that string, a record whose normalized root port is empty adds no entry, and of
  several records for one vlan the last one with a non-empty port wins (the map is read
  from the end of the sequence), so there is one uplink per vlan. This holds for every
  normalizer. The record \<open>("VLAN0010", ..., "Gi1/0/1")\<close>, whatever its five middle fields
  are, gives the map from 10 to the stripped normalizer output for \<^verbatim>\<open>Gi1/0/1\<close>; with the
  normalizer of section 4.2 that is \<open>{10: "gigabitethernet1/0/1"}\<close>.
\<close>

theorem uplink_map_last_write_wins:
  "(\<forall>records.
      (\<forall>entry\<in>set records.
          7 \<le> length entry \<and> (\<exists>vlan. label_vlan (entry ! 0) = Inr vlan)) \<longrightarrow>
      resolve_uplinks lin records = Inr (spec_uplink_map lin records)) \<and>
   (\<forall>records entry vlan.
      label_vlan (entry ! 0) = Inr vlan \<longrightarrow>
      spec_uplink_map lin (records @ [entry]) =
        (if py_strip (lin (entry ! 6)) \<noteq> []
         then (spec_uplink_map lin records)(vlan \<mapsto> py_strip (lin (entry ! 6)))
         else spec_uplink_map lin records)) \<and>
   (\<forall>a b c d e.
      resolve_uplinks lin [[''VLAN0010'', a, b, c, d, e, ''Gi1/0/1'']] =
        Inr (if py_strip (lin ''Gi1/0/1'') = [] then Map.empty
             else [10 \<mapsto> py_strip (lin ''Gi1/0/1'')])) \<and>
   (\<forall>a b c d e.
      resolve_uplinks normalize_interface [[''VLAN0010'', a, b, c, d, e, ''Gi1/0/1'']] =
        Inr [10 \<mapsto> ''gigabitethernet1/0/1''])"
proof (intro conjI allI impI)
  fix records
  assume "\<forall>entry\<in>set records.
      7 \<le> length entry \<and> (\<exists>vlan. label_vlan (entry ! 0) = Inr vlan)"
  then show "resolve_uplinks lin records = Inr (spec_uplink_map lin records)"
    by (simp add: resolve_uplinks_def uplink_loop_wf spec_uplink_map_def)
next
  fix records entry vlan
  assume "label_vlan (entry ! 0) = Inr vlan"
  then show "spec_uplink_map lin (records @ [entry]) =
        (if py_strip (lin (entry ! 6)) \<noteq> []
         then (spec_uplink_map lin records)(vlan \<mapsto> py_strip (lin (entry ! 6)))
         else spec_uplink_map lin records)"
    by (simp add: spec_uplink_map_def spec_uplink_entry_def)
next
  fix a b c d e
  show "resolve_uplinks lin [[''VLAN0010'', a, b, c, d, e, ''Gi1/0/1'']] =
        Inr (if py_strip (lin ''Gi1/0/1'') = [] then Map.empty
             else [10 \<mapsto> py_strip (lin ''Gi1/0/1'')])"
    by (simp add: resolve_uplinks_def uplink_step_def label_vlan_0010 py_index_def)
next
  fix a b c d e
  show "resolve_uplinks normalize_interface [[''VLAN0010'', a, b, c, d, e, ''Gi1/0/1'']] =
        Inr [10 \<mapsto> ''gigabitethernet1/0/1'']"
    by (rule resolve_uplinks_example)
qed

theorem uplink_map_last_write_wins_witness:
  "list_all (\<lambda>entry. 7 \<le> length entry \<and> (\<exists>vlan. label_vlan (entry ! 0) = Inr vlan))
     [[''VLAN0010'', ''32778'', ''0011.2233.4455'', ''4'', ''2'', ''20'', ''Gi1/0/1''],
      [''VLAN0020'', ''32788'', ''0011.2233.4455'', ''0'', ''2'', ''20'', '' ''],
      [''VLAN0010'', ''32778'', ''0011.2233.4455'', ''4'', ''2'', ''20'', ''Po1'']] \<and>
   resolve_uplinks normalize_interface
     [[''VLAN0010'', ''32778'', ''0011.2233.4455'', ''4'', ''2'', ''20'', ''Gi1/0/1''],
      [''VLAN0020'', ''32788'', ''0011.2233.4455'', ''0'', ''2'', ''20'', '' ''],
      [''VLAN0010'', ''32778'', ''0011.2233.4455'', ''4'', ''2'', ''20'', ''Po1'']] =
   Inr [10 \<mapsto> ''Po1'']"
proof -
  let ?r1 = "[''VLAN0010'', ''32778'', ''0011.2233.4455'', ''4'', ''2'', ''20'', ''Gi1/0/1'']"
  let ?r2 = "[''VLAN0020'', ''32788'', ''0011.2233.4455'', ''0'', ''2'', ''20'', '' '']"
  let ?r3 = "[''VLAN0010'', ''32778'', ''0011.2233.4455'', ''4'', ''2'', ''20'', ''Po1'']"
  have l20: "label_vlan ''VLAN0020'' = Inr 20"
    by (simp add: label_vlan_def py_defs)
  have wf: "\<forall>entry\<in>set [?r1, ?r2, ?r3].
      7 \<le> length entry \<and> (\<exists>vlan. label_vlan (entry ! 0) = Inr vlan)"
    by (simp add: label_vlan_0010 l20)
  have n1: "py_strip (normalize_interface ''Gi1/0/1'') = ''gigabitethernet1/0/1''"
    and n2: "py_strip (normalize_interface '' '') = []"
    and n3: "py_strip (normalize_interface ''Po1'') = ''Po1''"
    by code_simp+
  note main = uplink_map_last_write_wins [of normalize_interface]
  from main wf
  have run: "resolve_uplinks normalize_interface [?r1, ?r2, ?r3] =
      Inr (spec_uplink_map normalize_interface [?r1, ?r2, ?r3])"
    by blast
  from main have snoc: "spec_uplink_map normalize_interface (records @ [entry]) =
      (if py_strip (normalize_interface (entry ! 6)) \<noteq> []
       then (spec_uplink_map normalize_interface records)
              (vlan \<mapsto> py_strip (normalize_interface (entry ! 6)))
       else spec_uplink_map normalize_interface records)"
    if "label_vlan (entry ! 0) = Inr vlan" for records entry vlan
    using that by blast
  have m0: "spec_uplink_map normalize_interface [] = Map.empty"
    by (simp add: spec_uplink_map_def)
  have m1: "spec_uplink_map normalize_interface [?r1] = [10 \<mapsto> ''gigabitethernet1/0/1'']"
    using snoc [of ?r1 10 "[]"] by (simp add: label_vlan_0010 n1 m0)
  have m2: "spec_uplink_map normalize_interface [?r1, ?r2] = [10 \<mapsto> ''gigabitethernet1/0/1'']"
    using snoc [of ?r2 20 "[?r1]"] by (simp add: l20 n2 m1)
  have m3: "spec_uplink_map normalize_interface [?r1, ?r2, ?r3] = [10 \<mapsto> ''Po1'']"
    using snoc [of ?r3 10 "[?r1, ?r2]"] by (simp add: label_vlan_0010 n3 m2)
  from run m3 show ?thesis
    by (simp add: label_vlan_0010 l20)
qed


section \<open>Launching the script\<close>

text \<open>
  C9. If the main session is connected when the script is launched, \<^verbatim>\<open>script_main\<close> raises
  \<^verbatim>\<open>ScriptError\<close> and has called nothing by then: the trace is empty, so no inventory was
  loaded, no prompt shown, no file opened and no device contacted.
\<close>

theorem script_main_connected_tab:
  "is_connected scr \<Longrightarrow>
     script_main lib scr =
       (Inl (ScriptError ''This script must be launched in a not-connected tab.''), [])"
  by (simp add: script_main_def io_raise_def)

theorem script_main_connected_tab_witness:
  "is_connected (demo_script True [reachable ''IOS'' ''sw1'']) \<and>
   script_main demo_library (demo_script True [reachable ''IOS'' ''sw1'']) =
     (Inl (ScriptError ''This script must be launched in a not-connected tab.''), [])"
proof -
  have c: "is_connected (demo_script True [reachable ''IOS'' ''sw1''])"
    by (simp add: demo_script_def)
  from c script_main_connected_tab [OF c, of demo_library] show ?thesis by simp
qed



section \<open>The collector's session calls\<close>

text \<open>
  The paths through \<^verbatim>\<open>per_device_work\<close>: where the function is left, with which
  exception or result, and after which calls.
\<close>

lemma per_device_work_cases [consumes 0, case_names start_fail stp_fail resolver_fail mac_fail
    legacy_fail filter_fail end_fail ok]:
  obtains
    (start_fail) e where
      "start_cisco_session sess = Some e"
      "per_device_work lib sess en vset = (Inl e, [EvStartCiscoSession])"
  | (stp_fail) e where
      "start_cisco_session sess = None"
      "get_command_output sess ''show spanning-tree root'' = Inl e"
      "per_device_work lib sess en vset =
         (Inl e, [EvStartCiscoSession, EvCommand ''show spanning-tree root''])"
  | (resolver_fail) e raw where
      "start_cisco_session sess = None"
      "get_command_output sess ''show spanning-tree root'' = Inr raw"
      "resolve_uplinks (long_int_name lib)
         (textfsm_parse_to_list lib raw
            (get_template lib ''cisco_os_show_spanning-tree_root.template'')) = Inl e"
      "per_device_work lib sess en vset =
         (Inl e, [EvStartCiscoSession, EvCommand ''show spanning-tree root''])"
  | (mac_fail) e where
      "start_cisco_session sess = None"
      "get_command_output sess ''show mac address-table'' = Inl e"
      "per_device_work lib sess en vset =
         (Inl e, [EvStartCiscoSession, EvCommand ''show spanning-tree root'',
                  EvCommand ''show mac address-table''])"
  | (legacy_fail) e raw_mac where
      "start_cisco_session sess = None"
      "get_command_output sess ''show mac address-table'' = Inr raw_mac"
      "os sess = ''IOS''"
      "length (textfsm_parse_to_list lib raw_mac
                 (get_template lib ''cisco_ios_show_mac_addr_table.template'')) = 1"
      "get_command_output sess ''show mac-address-table dynamic'' = Inl e"
      "per_device_work lib sess en vset =
         (Inl e, [EvStartCiscoSession, EvCommand ''show spanning-tree root'',
                  EvCommand ''show mac address-table'',
                  EvCommand ''show mac-address-table dynamic''])"
  | (filter_fail) e raw_mac parsed exclude where
      "start_cisco_session sess = None"
      "get_command_output sess ''show mac address-table'' = Inr raw_mac"
      "mac_filter (long_int_name lib)
         \<lparr>fsm_results = parsed, vlan_set = vset, exclude_ports = exclude, results = []\<rparr> =
         Inl e"
      "per_device_work lib sess en vset =
         (Inl e,
          [EvStartCiscoSession, EvCommand ''show spanning-tree root'',
           EvCommand ''show mac address-table''] @
          (if os sess = ''IOS'' \<and>
              length (textfsm_parse_to_list lib raw_mac
                        (get_template lib ''cisco_ios_show_mac_addr_table.template'')) = 1
           then [EvCommand ''show mac-address-table dynamic''] else []))"
  | (end_fail) e raw_mac where
      "start_cisco_session sess = None"
      "get_command_output sess ''show mac address-table'' = Inr raw_mac"
      "end_cisco_session sess = Some e"
      "per_device_work lib sess en vset =
         (Inl e,
          [EvStartCiscoSession, EvCommand ''show spanning-tree root'',
           EvCommand ''show mac address-table''] @
          (if os sess = ''IOS'' \<and>
              length (textfsm_parse_to_list lib raw_mac
                        (get_template lib ''cisco_ios_show_mac_addr_table.template'')) = 1
           then [EvCommand ''show mac-address-table dynamic''] else []) @
          [EvEndCiscoSession])"
  | (ok) raw_mac parsed exclude st where
      "start_cisco_session sess = None"
      "get_command_output sess ''show mac address-table'' = Inr raw_mac"
      "end_cisco_session sess = None"
      "mac_filter (long_int_name lib)
         \<lparr>fsm_results = parsed, vlan_set = vset, exclude_ports = exclude, results = []\<rparr> =
         Inr st"
      "per_device_work lib sess en vset =
         (Inr (hostname sess, results st),
          [EvStartCiscoSession, EvCommand ''show spanning-tree root'',
           EvCommand ''show mac address-table''] @
          (if os sess = ''IOS'' \<and>
              length (textfsm_parse_to_list lib raw_mac
                        (get_template lib ''cisco_ios_show_mac_addr_table.template'')) = 1
           then [EvCommand ''show mac-address-table dynamic''] else []) @
          [EvEndCiscoSession])"
proof (cases "start_cisco_session sess")
  case (Some e)
  then have "per_device_work lib sess en vset = (Inl e, [EvStartCiscoSession])"
    by (simp add: per_device_work_def io_defs)
  with Some show ?thesis by (rule start_fail)
next
  case None
  note start = this
  show ?thesis
  proof (cases "get_command_output sess ''show spanning-tree root''")
    case (Inl e)
    with start have "per_device_work lib sess en vset =
        (Inl e, [EvStartCiscoSession, EvCommand ''show spanning-tree root''])"
      by (simp add: per_device_work_def io_defs)
    with start Inl show ?thesis by (rule stp_fail)
  next
    case (Inr raw)
    note stp = this
    let ?roots = "textfsm_parse_to_list lib raw
        (get_template lib ''cisco_os_show_spanning-tree_root.template'')"
    show ?thesis
    proof (cases "resolve_uplinks (long_int_name lib) ?roots")
      case (Inl e)
      with start stp have "per_device_work lib sess en vset =
          (Inl e, [EvStartCiscoSession, EvCommand ''show spanning-tree root''])"
        by (simp add: per_device_work_def io_defs)
      with start stp Inl show ?thesis by (rule resolver_fail)
    next
      case (Inr exclude)
      note res = this
      show ?thesis
      proof (cases "get_command_output sess ''show mac address-table''")
        case (Inl e)
        with start stp res have "per_device_work lib sess en vset =
            (Inl e, [EvStartCiscoSession, EvCommand ''show spanning-tree root'',
                     EvCommand ''show mac address-table''])"
          by (simp add: per_device_work_def io_defs)
        with start Inl show ?thesis by (rule mac_fail)
      next
        case (Inr raw_mac)
        note mac = this
        let ?ios = "get_template lib ''cisco_ios_show_mac_addr_table.template''"
        let ?nxos = "get_template lib ''cisco_nxos_show_mac_addr_table.template''"
        let ?retry = "os sess = ''IOS'' \<and> length (textfsm_parse_to_list lib raw_mac ?ios) = 1"
        show ?thesis
        proof (cases ?retry)
          case True
          note retry = this
          show ?thesis
          proof (cases "get_command_output sess ''show mac-address-table dynamic''")
            case (Inl e)
            with start stp res mac retry have "per_device_work lib sess en vset =
                (Inl e, [EvStartCiscoSession, EvCommand ''show spanning-tree root'',
                         EvCommand ''show mac address-table'',
                         EvCommand ''show mac-address-table dynamic''])"
              by (simp add: per_device_work_def io_defs)
            with start mac retry Inl show ?thesis by (auto intro: legacy_fail)
          next
            case (Inr raw_legacy)
            note legacy = this
            let ?st0 = "\<lparr>fsm_results = textfsm_parse_to_list lib raw_legacy ?ios, vlan_set = vset,
                exclude_ports = exclude, results = []\<rparr>"
            show ?thesis
            proof (cases "mac_filter (long_int_name lib) ?st0")
              case (Inl e)
              with start stp res mac retry legacy have "per_device_work lib sess en vset =
                  (Inl e, [EvStartCiscoSession, EvCommand ''show spanning-tree root'',
                           EvCommand ''show mac address-table''] @
                     (if ?retry then [EvCommand ''show mac-address-table dynamic''] else []))"
                by (simp add: per_device_work_def io_defs)
              with start mac Inl show ?thesis by (rule filter_fail)
            next
              case (Inr st)
              note flt = this
              show ?thesis
              proof (cases "end_cisco_session sess")
                case (Some e)
                with start stp res mac retry legacy flt have "per_device_work lib sess en vset =
                    (Inl e, [EvStartCiscoSession, EvCommand ''show spanning-tree root'',
                             EvCommand ''show mac address-table''] @
                       (if ?retry then [EvCommand ''show mac-address-table dynamic''] else []) @
                       [EvEndCiscoSession])"
                  by (simp add: per_device_work_def io_defs)
                with start mac Some show ?thesis by (rule end_fail)
              next
                case None
                with start stp res mac retry legacy flt have "per_device_work lib sess en vset =
                    (Inr (hostname sess, results st),
                     [EvStartCiscoSession, EvCommand ''show spanning-tree root'',
                             EvCommand ''show mac address-table''] @
                       (if ?retry then [EvCommand ''show mac-address-table dynamic''] else []) @
                       [EvEndCiscoSession])"
                  by (simp add: per_device_work_def io_defs)
                with start mac None flt show ?thesis by (rule ok)
              qed
            qed
          qed
        next
          case False
          note retry = this
          let ?tmpl = "if os sess = ''NXOS'' then ?nxos else ?ios"
          let ?st0 = "\<lparr>fsm_results = textfsm_parse_to_list lib raw_mac ?tmpl, vlan_set = vset,
              exclude_ports = exclude, results = []\<rparr>"
          show ?thesis
          proof (cases "mac_filter (long_int_name lib) ?st0")
            case (Inl e)
            with start stp res mac retry have "per_device_work lib sess en vset =
                (Inl e, [EvStartCiscoSession, EvCommand ''show spanning-tree root'',
                         EvCommand ''show mac address-table''] @
                   (if ?retry then [EvCommand ''show mac-address-table dynamic''] else []))"
              by (cases "os sess = ''IOS''"; simp add: per_device_work_def io_defs)
            with start mac Inl show ?thesis by (rule filter_fail)
          next
            case (Inr st)
            note flt = this
            show ?thesis
            proof (cases "end_cisco_session sess")
              case (Some e)
              with start stp res mac retry flt have "per_device_work lib sess en vset =
                  (Inl e, [EvStartCiscoSession, EvCommand ''show spanning-tree root'',
                           EvCommand ''show mac address-table''] @
                     (if ?retry then [EvCommand ''show mac-address-table dynamic''] else []) @
                     [EvEndCiscoSession])"
                by (cases "os sess = ''IOS''"; simp add: per_device_work_def io_defs)
              with start mac Some show ?thesis by (rule end_fail)
            next
              case None
              with start stp res mac retry flt have "per_device_work lib sess en vset =
                  (Inr (hostname sess, results st),
                   [EvStartCiscoSession, EvCommand ''show spanning-tree root'',
                           EvCommand ''show mac address-table''] @
                     (if ?retry then [EvCommand ''show mac-address-table dynamic''] else []) @
                     [EvEndCiscoSession])"
                by (cases "os sess = ''IOS''"; simp add: per_device_work_def io_defs)
              with start mac None flt show ?thesis by (rule ok)
            qed
          qed
        qed
      qed
    qed
  qed
qed

lemma per_device_work_returns:
  assumes "per_device_work lib sess en vset = (Inr res, tr)"
  shows "\<exists>cmds. tr = EvStartCiscoSession # map EvCommand cmds @ [EvEndCiscoSession]"
proof (cases rule: per_device_work_cases [of sess lib en vset])
  case (ok raw_mac parsed exclude st)
  let ?cmds = "[''show spanning-tree root'', ''show mac address-table''] @
      (if os sess = ''IOS'' \<and>
          length (textfsm_parse_to_list lib raw_mac
                    (get_template lib ''cisco_ios_show_mac_addr_table.template'')) = 1
       then [''show mac-address-table dynamic''] else [])"
  from ok(5) assms have "tr = EvStartCiscoSession # map EvCommand ?cmds @ [EvEndCiscoSession]"
    by simp
  then show ?thesis ..
qed (use assms in simp_all)

text \<open>
  When the collector is left by an exception, \<^verbatim>\<open>end_cisco_session\<close> has not been called,
  unless it is that call itself that raised.
\<close>

lemma per_device_work_raises:
  assumes "per_device_work lib sess en vset = (Inl e, tr)"
  shows "EvEndCiscoSession \<notin> set tr \<or> end_cisco_session sess = Some e"
proof (cases rule: per_device_work_cases [of sess lib en vset])
  case (ok raw_mac parsed exclude st)
  with assms show ?thesis by simp
qed (use assms in auto)

text \<open>
  C2 (as amended). Whenever the collector returns normally, it entered automation mode
  first and left it as its last session call before returning: the trace is
  \<^verbatim>\<open>start_cisco_session\<close>, then commands only, then \<^verbatim>\<open>end_cisco_session\<close>.
\<close>

theorem automation_mode_exit:
  "per_device_work lib sess en vset = (Inr res, tr) \<Longrightarrow>
     \<exists>cmds. tr = EvStartCiscoSession # map EvCommand cmds @ [EvEndCiscoSession]"
  by (rule per_device_work_returns)

lemma demo_sw1_run:
  "per_device_work demo_library (demo_session ''IOS'' ''sw1'') ''enable'' {10} =
     (Inr (''sw1'', [[''10'', ''dddd.eeee.ffff'', ''Fa0/2'']]),
      [EvStartCiscoSession, EvCommand ''show spanning-tree root'',
       EvCommand ''show mac address-table'', EvEndCiscoSession])"
  by code_simp

theorem automation_mode_exit_witness:
  "per_device_work demo_library (demo_session ''IOS'' ''sw1'') ''enable'' {10} =
     (Inr (''sw1'', [[''10'', ''dddd.eeee.ffff'', ''Fa0/2'']]),
      [EvStartCiscoSession, EvCommand ''show spanning-tree root'',
       EvCommand ''show mac address-table'', EvEndCiscoSession]) \<and>
   (\<exists>cmds. [EvStartCiscoSession, EvCommand ''show spanning-tree root'',
            EvCommand ''show mac address-table'', EvEndCiscoSession] =
           EvStartCiscoSession # map EvCommand cmds @ [EvEndCiscoSession])"
  using automation_mode_exit [OF demo_sw1_run] demo_sw1_run by simp

text \<open>
  The claim as stated fails: on a switch whose spanning-tree output lists an MST instance,
  the label \<^verbatim>\<open>MST0000\<close> has no \<^verbatim>\<open>N\<close>, the resolver raises \<^verbatim>\<open>IndexError\<close>, and the collector
  is left with automation mode entered and not exited.
\<close>

theorem automation_mode_exit_counterexample:
  "start_cisco_session (demo_session ''IOS'' ''sw5'') = None \<and>
   label_vlan ''MST0000'' = Inl IndexError \<and>
   per_device_work demo_library (demo_session ''IOS'' ''sw5'') ''enable'' {10} =
     (Inl IndexError, [EvStartCiscoSession, EvCommand ''show spanning-tree root''])"
  by code_simp


section \<open>The legacy command\<close>

lemma commands_trace [simp]:
  "commands (EvStartCiscoSession # tr) = commands tr"
  "commands (EvCommand c # tr) = c # commands tr"
  "commands (tr @ tr') = commands tr @ commands tr'"
  "commands [EvEndCiscoSession] = []"
  "commands [] = []"
  by (simp_all add: commands_def)

text \<open>
  What the source does about the legacy spelling: in a run that returns, the fallback
  command is sent exactly when the OS tag is \<^verbatim>\<open>IOS\<close> and the primary parse has exactly one
  record, and then once, after the primary command.
\<close>

lemma per_device_work_fallback:
  assumes "per_device_work lib sess en vset = (Inr res, tr)"
    and "get_command_output sess ''show mac address-table'' = Inr raw_mac"
  shows "commands tr =
     [''show spanning-tree root'', ''show mac address-table''] @
     (if os sess = ''IOS'' \<and>
         length (textfsm_parse_to_list lib raw_mac
                   (get_template lib ''cisco_ios_show_mac_addr_table.template'')) = 1
      then [''show mac-address-table dynamic''] else [])"
proof (cases rule: per_device_work_cases [of sess lib en vset])
  case (ok raw_mac' parsed exclude st)
  with assms have "raw_mac' = raw_mac" by simp
  with ok(5) assms(1) show ?thesis by auto
qed (use assms in simp_all)

lemma fallback_at_most_once:
  "length (filter (\<lambda>c. c = ''show mac-address-table dynamic'')
     (commands (snd (per_device_work lib sess en vset)))) \<le> 1"
  by (cases rule: per_device_work_cases [of sess lib en vset]) simp_all

text \<open>
  C3 (the code departs from the claim). An IOS switch whose primary MAC-table parse is
  empty, zero records being at most a single record, gets no fallback command: the
  collector sends the spanning-tree command and the primary command only, and returns
  an empty result. The source tests \<^verbatim>\<open>len(fsm_results) == 1\<close> under the comment
  ``Check if IOS mac_table is empty'', while the parse is made with \<^verbatim>\<open>add_header=False\<close>.
\<close>

theorem fallback_not_issued_on_empty_parse:
  "os (demo_session ''IOS'' ''sw6'') = ''IOS'' \<and>
   get_command_output (demo_session ''IOS'' ''sw6'') ''show mac address-table'' = Inr ''mac sw6'' \<and>
   textfsm_parse_to_list demo_library ''mac sw6''
     (get_template demo_library ''cisco_ios_show_mac_addr_table.template'') = [] \<and>
   per_device_work demo_library (demo_session ''IOS'' ''sw6'') ''enable'' {10} =
     (Inr (''sw6'', []),
      [EvStartCiscoSession, EvCommand ''show spanning-tree root'',
       EvCommand ''show mac address-table'', EvEndCiscoSession])"
  by code_simp

text \<open>With exactly one record the fallback is sent, once, and its parse is the one filtered.\<close>

lemma fallback_issued_on_single_record:
  "per_device_work demo_library (demo_session ''IOS'' ''sw7'') ''enable'' {10} =
     (Inr (''sw7'', [[''10'', ''0000.0000.0001'', ''Fa0/9''],
                     [''10'', ''0000.0000.0002'', ''Fa0/8'']]),
      [EvStartCiscoSession, EvCommand ''show spanning-tree root'',
       EvCommand ''show mac address-table'', EvCommand ''show mac-address-table dynamic'',
       EvEndCiscoSession])"
  by code_simp


section \<open>Proxy resolution\<close>

lemma device_iteration_keys:
  "has_required_keys device \<Longrightarrow>
   device_iteration lib use_proxy dflt vset (device, sim) =
     handle_failure sim
       (try_block lib vset sim (the (device ''Hostname'')) (the (device ''Username''))
          (the (device ''Password'')) (the (device ''Protocol'')) (the (device ''Enable''))
          (resolve_proxy use_proxy dflt device))"
  by (auto simp: device_iteration_def has_required_keys_def required_keys_def py_getitem_def Let_def)

lemma try_block_connect_fails:
  "connect_result sim = Some e \<Longrightarrow>
   try_block lib vset sim host username password protocol enable proxy =
     (host, (Inl e, [EvConnect host username password protocol proxy]))"
  by (simp add: try_block_def io_defs)

lemma try_block_work_fails:
  "connect_result sim = None \<Longrightarrow>
   per_device_work lib (main_session sim) enable vset = (Inl e, tr) \<Longrightarrow>
   try_block lib vset sim host username password protocol enable proxy =
     (host, (Inl e, EvConnect host username password protocol proxy # tr))"
  by (simp add: try_block_def io_defs)

lemma try_block_work_returns:
  "connect_result sim = None \<Longrightarrow>
   per_device_work lib (main_session sim) enable vset = (Inr (host', matched), tr) \<Longrightarrow>
   try_block lib vset sim host username password protocol enable proxy =
     (host',
      case disconnect_result sim of
        Some e \<Rightarrow> (Inl e, EvConnect host username password protocol proxy # tr @ [EvDisconnect])
      | None \<Rightarrow>
          (fst (if matched \<noteq> [] then write_section host' matched else io_return ()),
           EvConnect host username password protocol proxy # tr @ [EvDisconnect] @
           snd (if matched \<noteq> [] then write_section host' matched else io_return ())))"
  by (simp add: try_block_def io_defs split: option.splits prod.splits)

lemma try_block_starts_with_connect:
  "\<exists>tr. snd (snd (try_block lib vset sim host username password protocol enable proxy)) =
     EvConnect host username password protocol proxy # tr"
proof (cases "connect_result sim")
  case (Some e)
  then show ?thesis by (simp add: try_block_connect_fails)
next
  case None
  obtain r tr where w: "per_device_work lib (main_session sim) enable vset = (r, tr)"
    by (cases "per_device_work lib (main_session sim) enable vset")
  show ?thesis
  proof (cases r)
    case (Inl e)
    with None w show ?thesis by (simp add: try_block_work_fails)
  next
    case (Inr res)
    with None w show ?thesis
      by (cases res) (simp add: try_block_work_returns split: option.splits)
  qed
qed

lemma log_failure_cases [consumes 0, case_names append_fail disconnect_fail logged]:
  obtains
    (append_fail) e where
      "log_append_result sim = Some e"
      "log_failure sim line = (Inl e, [EvAppendLog line])"
  | (disconnect_fail) e where
      "log_append_result sim = None" "session_disconnect_result sim = Some e"
      "log_failure sim line = (Inl e, [EvAppendLog line, EvSessionDisconnect])"
  | (logged)
      "log_append_result sim = None" "session_disconnect_result sim = None"
      "log_failure sim line = (Inr (), [EvAppendLog line, EvSessionDisconnect])"
proof (cases "log_append_result sim")
  case (Some e)
  then show ?thesis by (auto intro: append_fail simp: log_failure_def io_defs)
next
  case None
  show ?thesis
  proof (cases "session_disconnect_result sim")
    case (Some e)
    with None show ?thesis by (auto intro: disconnect_fail simp: log_failure_def io_defs)
  next
    case none: None
    with None show ?thesis by (auto intro: logged simp: log_failure_def io_defs)
  qed
qed

lemma handle_failure_simps:
  "handle_failure sim (host, (Inr (), tr)) = (Inr (), tr)"
  "handle_failure sim (host, (Inl (ConnectError m), tr)) =
     (fst (log_failure sim (''<M_SCRIPT> Connect to '' @ host @ '' failed: '' @
                            py_strip m @ ''\<newline>'')),
      tr @ snd (log_failure sim (''<M_SCRIPT> Connect to '' @ host @ '' failed: '' @
                                 py_strip m @ ''\<newline>'')))"
  "handle_failure sim (host, (Inl (InteractionError m), tr)) =
     (fst (log_failure sim (''<M_SCRIPT> Failure on '' @ host @ '': '' @
                            py_strip m @ ''\<newline>'')),
      tr @ snd (log_failure sim (''<M_SCRIPT> Failure on '' @ host @ '': '' @
                                 py_strip m @ ''\<newline>'')))"
  "handle_failure sim (host, (Inl (UnsupportedOSError m), tr)) =
     (fst (log_failure sim (''<M_SCRIPT> Unsupported OS on '' @ host @ '': '' @
                            py_strip m @ ''\<newline>'')),
      tr @ snd (log_failure sim (''<M_SCRIPT> Unsupported OS on '' @ host @ '': '' @
                                 py_strip m @ ''\<newline>'')))"
  "\<not> handled_failure (Inl e) \<Longrightarrow> handle_failure sim (host, (Inl e, tr)) = (Inl e, tr)"
  by (auto simp: handle_failure_def io_bind_def split: exn.splits prod.splits)

lemma handled_failure_cases [consumes 0, case_names ok connect interaction unsupported other]:
  obtains
    (ok) "r = Inr ()"
  | (connect) m where "r = Inl (ConnectError m)"
  | (interaction) m where "r = Inl (InteractionError m)"
  | (unsupported) m where "r = Inl (UnsupportedOSError m)"
  | (other) e where "r = Inl e" "\<not> handled_failure (Inl e)"
proof (cases r)
  case (Inl e)
  then show ?thesis using that by (cases e) auto
next
  case (Inr u)
  then show ?thesis using that by simp
qed

lemma handle_failure_trace:
  "\<exists>tr'. snd (handle_failure sim blk) = snd (snd blk) @ tr'"
proof -
  obtain host r tr where blk: "blk = (host, (r, tr))"
    by (cases blk) auto
  show ?thesis
    unfolding blk
    by (cases rule: handled_failure_cases [of r]) (simp_all add: handle_failure_simps)
qed

text \<open>
  C10. A device record whose \<^verbatim>\<open>Proxy Session\<close> column is missing and one where it is the
  empty string are resolved alike: with \<^verbatim>\<open>use_proxy\<close> set, both get the default proxy
  session of the settings; without it, both get a false value (\<^verbatim>\<open>None\<close> for the missing
  column, the empty string for the empty one), which is what the script passes on for ``no
  proxy''. A non-empty per-device proxy is used as it is, whatever the flag. The resolved
  value is the one handed to \<^verbatim>\<open>script.connect\<close>, the first call of the iteration.
\<close>

theorem proxy_resolution:
  "(device ''Proxy Session'' = None \<or> device ''Proxy Session'' = Some [] \<longrightarrow>
      resolve_proxy True dflt device = Some dflt \<and>
      resolve_proxy False dflt device = device ''Proxy Session'' \<and>
      \<not> truthy (resolve_proxy False dflt device)) \<and>
   (\<forall>p. device ''Proxy Session'' = Some p \<and> p \<noteq> [] \<longrightarrow>
      resolve_proxy use_proxy dflt device = Some p) \<and>
   (has_required_keys device \<longrightarrow>
      (\<exists>tr. snd (device_iteration lib use_proxy dflt vset (device, sim)) =
         EvConnect (the (device ''Hostname'')) (the (device ''Username''))
           (the (device ''Password'')) (the (device ''Protocol''))
           (resolve_proxy use_proxy dflt device) # tr))"
proof (intro conjI allI impI)
  assume "device ''Proxy Session'' = None \<or> device ''Proxy Session'' = Some []"
  then show "resolve_proxy True dflt device = Some dflt"
    and "resolve_proxy False dflt device = device ''Proxy Session''"
    and "\<not> truthy (resolve_proxy False dflt device)"
    by (auto simp: resolve_proxy_def py_getitem_def truthy_def)
next
  fix p
  assume "device ''Proxy Session'' = Some p \<and> p \<noteq> []"
  then show "resolve_proxy use_proxy dflt device = Some p"
    by (simp add: resolve_proxy_def py_getitem_def truthy_def)
next
  assume keys: "has_required_keys device"
  let ?blk = "try_block lib vset sim (the (device ''Hostname'')) (the (device ''Username''))
          (the (device ''Password'')) (the (device ''Protocol'')) (the (device ''Enable''))
          (resolve_proxy use_proxy dflt device)"
  obtain tr where tr: "snd (snd ?blk) =
      EvConnect (the (device ''Hostname'')) (the (device ''Username''))
           (the (device ''Password'')) (the (device ''Protocol''))
           (resolve_proxy use_proxy dflt device) # tr"
    using try_block_starts_with_connect by blast
  obtain tr' where "snd (handle_failure sim ?blk) = snd (snd ?blk) @ tr'"
    using handle_failure_trace by blast
  with tr keys show "\<exists>tr. snd (device_iteration lib use_proxy dflt vset (device, sim)) =
         EvConnect (the (device ''Hostname'')) (the (device ''Username''))
           (the (device ''Password'')) (the (device ''Protocol''))
           (resolve_proxy use_proxy dflt device) # tr"
    by (simp add: device_iteration_keys)
qed

theorem proxy_resolution_witness:
  "resolve_proxy True ''jumpbox'' (demo_device ''sw1'') = Some ''jumpbox'' \<and>
   resolve_proxy True ''jumpbox'' ((demo_device ''sw1'')(''Proxy Session'' \<mapsto> [])) = Some ''jumpbox'' \<and>
   resolve_proxy False ''jumpbox'' (demo_device ''sw1'') = None \<and>
   resolve_proxy False ''jumpbox'' ((demo_device ''sw1'')(''Proxy Session'' \<mapsto> [])) = Some [] \<and>
   resolve_proxy True ''jumpbox'' ((demo_device ''sw1'')(''Proxy Session'' \<mapsto> ''bastion'')) = Some ''bastion'' \<and>
   resolve_proxy False ''jumpbox'' ((demo_device ''sw1'')(''Proxy Session'' \<mapsto> ''bastion'')) = Some ''bastion'' \<and>
   hd (snd (device_iteration demo_library False ''jumpbox'' {10}
              (demo_device ''sw1'', snd (reachable ''IOS'' ''sw1'')))) =
     EvConnect ''sw1'' ''admin'' ''secret'' ''SSH2'' None"
proof -
  have absent: "demo_device ''sw1'' ''Proxy Session'' = None"
    by (simp add: demo_device_def)
  have empty: "((demo_device ''sw1'')(''Proxy Session'' \<mapsto> [])) ''Proxy Session'' = Some []"
    by simp
  have given: "((demo_device ''sw1'')(''Proxy Session'' \<mapsto> ''bastion'')) ''Proxy Session'' =
      Some ''bastion'' \<and> ''bastion'' \<noteq> []"
    by simp
  from proxy_resolution [of "demo_device ''sw1''" "''jumpbox''"] absent
  have 1: "resolve_proxy True ''jumpbox'' (demo_device ''sw1'') = Some ''jumpbox''"
    "resolve_proxy False ''jumpbox'' (demo_device ''sw1'') = None"
    by simp_all
  from proxy_resolution [of "(demo_device ''sw1'')(''Proxy Session'' \<mapsto> [])" "''jumpbox''"] empty
  have 2: "resolve_proxy True ''jumpbox'' ((demo_device ''sw1'')(''Proxy Session'' \<mapsto> [])) =
      Some ''jumpbox''"
    "resolve_proxy False ''jumpbox'' ((demo_device ''sw1'')(''Proxy Session'' \<mapsto> [])) = Some []"
    by simp_all
  from proxy_resolution [of "(demo_device ''sw1'')(''Proxy Session'' \<mapsto> ''bastion'')"
      "''jumpbox''" True] given
  have 3: "resolve_proxy True ''jumpbox''
      ((demo_device ''sw1'')(''Proxy Session'' \<mapsto> ''bastion'')) = Some ''bastion''"
    by blast
  from proxy_resolution [of "(demo_device ''sw1'')(''Proxy Session'' \<mapsto> ''bastion'')"
      "''jumpbox''" False] given
  have 4: "resolve_proxy False ''jumpbox''
      ((demo_device ''sw1'')(''Proxy Session'' \<mapsto> ''bastion'')) = Some ''bastion''"
    by blast
  have keys: "has_required_keys (demo_device ''sw1'')"
    by (simp add: has_required_keys_def required_keys_def demo_device_def)
  from proxy_resolution [of "demo_device ''sw1''" "''jumpbox''" False demo_library "{10}"
      "snd (reachable ''IOS'' ''sw1'')"] keys
  obtain tr where "snd (device_iteration demo_library False ''jumpbox'' {10}
      (demo_device ''sw1'', snd (reachable ''IOS'' ''sw1''))) =
    EvConnect (the (demo_device ''sw1'' ''Hostname'')) (the (demo_device ''sw1'' ''Username''))
      (the (demo_device ''sw1'' ''Password'')) (the (demo_device ''sw1'' ''Protocol''))
      (resolve_proxy False ''jumpbox'' (demo_device ''sw1'')) # tr"
    by blast
  moreover have "the (demo_device ''sw1'' ''Hostname'') = ''sw1''"
    "the (demo_device ''sw1'' ''Username'') = ''admin''"
    "the (demo_device ''sw1'' ''Password'') = ''secret''"
    "the (demo_device ''sw1'' ''Protocol'') = ''SSH2''"
    by (simp_all add: demo_device_def)
  ultimately have 5: "hd (snd (device_iteration demo_library False ''jumpbox'' {10}
      (demo_device ''sw1'', snd (reachable ''IOS'' ''sw1'')))) =
    EvConnect ''sw1'' ''admin'' ''secret'' ''SSH2'' None"
    by (simp add: 1)
  from 1 2 3 4 5 show ?thesis by simp
qed


section \<open>Malformed spanning-tree labels\<close>

lemma py_split_chars: "p \<in> set (py_split c s) \<Longrightarrow> set p \<subseteq> set s"
proof (induction s arbitrary: p)
  case Nil
  then show ?case by simp
next
  case (Cons x xs)
  show ?case
  proof (cases "x = c")
    case True
    with Cons show ?thesis by auto
  next
    case False
    show ?thesis
    proof (cases "py_split c xs")
      case Nil
      with False Cons.prems show ?thesis by simp
    next
      case (Cons q qs)
      with False Cons.prems Cons.IH show ?thesis by fastforce
    qed
  qed
qed

lemma py_strip_chars: "set (py_strip s) \<subseteq> set s"
proof -
  have "set (dropWhile is_space (rev (dropWhile is_space s))) \<subseteq> set (rev (dropWhile is_space s))"
    by (auto dest: set_dropWhileD)
  also have "\<dots> \<subseteq> set s"
    by (auto dest: set_dropWhileD)
  finally show ?thesis by (simp add: py_strip_def)
qed

lemma py_int_digit:
  assumes "py_int s = Inr v"
  shows "\<exists>c\<in>set s. is_digit c"
proof -
  from assms obtain c r where cr: "py_strip s = c # r" and "all_digits r \<or> all_digits (c # r)"
    by (auto simp: py_int_def split: list.splits if_splits)
  then obtain d where "d \<in> set (c # r)" "is_digit d"
    by (cases r) (auto simp: all_digits_def)
  with cr py_strip_chars [of s] show ?thesis by auto
qed

lemma label_vlan_error: "label_vlan label = Inl e \<Longrightarrow> e = IndexError \<or> e = ValueError"
  by (auto simp: label_vlan_def py_index_def dest: py_int_error split: sum.splits if_splits)

lemma label_vlan_digit:
  assumes "label_vlan label = Inr v"
  shows "\<exists>c\<in>set label. is_digit c"
proof -
  from assms obtain piece where p: "py_index (py_split CHR ''N'' label) 1 = Inr piece"
    and "py_int piece = Inr v"
    by (auto simp: label_vlan_def split: sum.splits)
  then obtain c where c: "c \<in> set piece" "is_digit c"
    using py_int_digit by blast
  from p have "piece \<in> set (py_split CHR ''N'' label)"
    by (auto simp: py_index_def split: if_splits)
  with c py_split_chars show ?thesis by blast
qed

lemma uplink_step_error:
  "uplink_step lin exclude entry = Inl e \<Longrightarrow> e = IndexError \<or> e = ValueError"
  by (auto simp: uplink_step_def py_index_def Let_def dest: label_vlan_error
      split: sum.splits if_splits)

lemma uplink_loop_error:
  "uplink_loop lin exclude records = Inl e \<Longrightarrow> e = IndexError \<or> e = ValueError"
  by (induction records arbitrary: exclude) (auto dest: uplink_step_error split: sum.splits)

lemma uplink_step_bad_label:
  assumes "list_all (\<lambda>c. \<not> is_digit c) label"
  shows "\<exists>e. uplink_step lin exclude (label # others) = Inl e"
proof (cases "label_vlan label")
  case (Inl e)
  then show ?thesis by (simp add: uplink_step_def py_index_def)
next
  case (Inr v)
  with assms label_vlan_digit [of label v] show ?thesis
    by (auto simp: list_all_iff)
qed

lemma uplink_loop_bad_label:
  assumes "list_all (\<lambda>c. \<not> is_digit c) label"
  shows "label # others \<in> set records \<Longrightarrow> \<exists>e. uplink_loop lin exclude records = Inl e"
proof (induction records arbitrary: exclude)
  case Nil
  then show ?case by simp
next
  case (Cons entry records)
  show ?case
  proof (cases "uplink_step lin exclude entry")
    case (Inl e)
    then show ?thesis by simp
  next
    case (Inr exclude')
    with uplink_step_bad_label [OF assms, of lin exclude others] Cons.prems
    have "label # others \<in> set records" by auto
    with Cons.IH Inr show ?thesis by simp
  qed
qed

lemma per_device_work_resolver_fails:
  "start_cisco_session sess = None \<Longrightarrow>
   get_command_output sess ''show spanning-tree root'' = Inr raw \<Longrightarrow>
   resolve_uplinks (long_int_name lib)
     (textfsm_parse_to_list lib raw
        (get_template lib ''cisco_os_show_spanning-tree_root.template'')) = Inl e \<Longrightarrow>
   per_device_work lib sess en vset =
     (Inl e, [EvStartCiscoSession, EvCommand ''show spanning-tree root''])"
  by (simp add: per_device_work_def io_defs)

text \<open>
  C5 (as amended). For every spanning-tree-root record whose vlan-label contains no
  digits, the uplink resolver fails: extracting the vlan id raises Python's \<^verbatim>\<open>IndexError\<close>
  (no \<^verbatim>\<open>N\<close> in the label) or \<^verbatim>\<open>ValueError\<close> (no integer after the first \<^verbatim>\<open>N\<close>), and
  with one of the two the resolver fails on every sequence of records that holds such a
  record. The script has no \<^verbatim>\<open>MalformedVlanLabelError\<close>.
\<close>

theorem malformed_vlan_label_fails:
  "(list_all (\<lambda>c. \<not> is_digit c) label \<longrightarrow>
      label_vlan label = Inl IndexError \<or> label_vlan label = Inl ValueError) \<and>
   (list_all (\<lambda>c. \<not> is_digit c) label \<and> label # others \<in> set records \<longrightarrow>
      resolve_uplinks lin records = Inl IndexError \<or>
      resolve_uplinks lin records = Inl ValueError)"
proof (intro conjI impI)
  assume "list_all (\<lambda>c. \<not> is_digit c) label"
  then have "\<not> (\<exists>v. label_vlan label = Inr v)"
    using label_vlan_digit [of label] by (auto simp: list_all_iff)
  then obtain e where "label_vlan label = Inl e"
    by (cases "label_vlan label") auto
  with label_vlan_error [of label e]
  show "label_vlan label = Inl IndexError \<or> label_vlan label = Inl ValueError"
    by auto
next
  assume "list_all (\<lambda>c. \<not> is_digit c) label \<and> label # others \<in> set records"
  then obtain e where e: "resolve_uplinks lin records = Inl e"
    unfolding resolve_uplinks_def using uplink_loop_bad_label by blast
  then have "e = IndexError \<or> e = ValueError"
    unfolding resolve_uplinks_def by (rule uplink_loop_error)
  with e show "resolve_uplinks lin records = Inl IndexError \<or>
      resolve_uplinks lin records = Inl ValueError"
    by auto
qed

theorem malformed_vlan_label_fails_witness:
  "list_all (\<lambda>c. \<not> is_digit c) ''VLAN'' \<and>
   label_vlan ''VLAN'' = Inl ValueError \<and>
   [''VLAN'', ''32778'', ''0011.2233.4455'', ''4'', ''2'', ''20'', ''Gi1/0/1''] \<in>
     set [[''VLAN0010'', ''32778'', ''0011.2233.4455'', ''4'', ''2'', ''20'', ''Gi1/0/1''],
          [''VLAN'', ''32778'', ''0011.2233.4455'', ''4'', ''2'', ''20'', ''Gi1/0/1'']] \<and>
   resolve_uplinks normalize_interface
     [[''VLAN0010'', ''32778'', ''0011.2233.4455'', ''4'', ''2'', ''20'', ''Gi1/0/1''],
      [''VLAN'', ''32778'', ''0011.2233.4455'', ''4'', ''2'', ''20'', ''Gi1/0/1'']] =
     Inl ValueError"
proof -
  let ?records = "[[''VLAN0010'', ''32778'', ''0011.2233.4455'', ''4'', ''2'', ''20'', ''Gi1/0/1''],
      [''VLAN'', ''32778'', ''0011.2233.4455'', ''4'', ''2'', ''20'', ''Gi1/0/1'']]"
  have nodigit: "list_all (\<lambda>c. \<not> is_digit c) ''VLAN''"
    by (simp add: is_digit_def)
  have v: "label_vlan ''VLAN'' \<noteq> Inl IndexError"
    by code_simp
  have "(case resolve_uplinks normalize_interface ?records of
           Inl e \<Rightarrow> Some e
         | Inr exclude \<Rightarrow> None) = Some ValueError"
    by code_simp
  then have r: "resolve_uplinks normalize_interface ?records \<noteq> Inl IndexError"
    by auto
  have held: "[''VLAN'', ''32778'', ''0011.2233.4455'', ''4'', ''2'', ''20'', ''Gi1/0/1''] \<in>
      set ?records"
    by simp
  note main = malformed_vlan_label_fails [of "''VLAN''"
      "[''32778'', ''0011.2233.4455'', ''4'', ''2'', ''20'', ''Gi1/0/1'']" ?records
      normalize_interface]
  from main nodigit v have label: "label_vlan ''VLAN'' = Inl ValueError"
    by blast
  from main nodigit held r have "resolve_uplinks normalize_interface ?records = Inl ValueError"
    by blast
  with nodigit label held show ?thesis
    by blast
qed

text \<open>
  Where such a failure goes: the collector is left by the exception right after the
  spanning-tree command, \<^verbatim>\<open>script_main\<close> has no handler for it and writes no failure line,
  and the device loop is left with that exception at this device.
\<close>

lemma resolver_failure_leaves_loop:
  assumes "list_all (\<lambda>c. \<not> is_digit c) label"
    and "label # others \<in> set (textfsm_parse_to_list lib raw
                             (get_template lib ''cisco_os_show_spanning-tree_root.template''))"
    and "has_required_keys device" and "connect_result sim = None"
    and "start_cisco_session (main_session sim) = None"
    and "get_command_output (main_session sim) ''show spanning-tree root'' = Inr raw"
  shows "\<exists>e. (e = IndexError \<or> e = ValueError) \<and>
           device_loop lib use_proxy dflt vset ((device, sim) # rest) =
             (Inl e,
              [EvConnect (the (device ''Hostname'')) (the (device ''Username''))
                 (the (device ''Password'')) (the (device ''Protocol''))
                 (resolve_proxy use_proxy dflt device),
               EvStartCiscoSession, EvCommand ''show spanning-tree root''])"
proof -
  let ?roots = "textfsm_parse_to_list lib raw
      (get_template lib ''cisco_os_show_spanning-tree_root.template'')"
  from assms(1,2) obtain e where e: "resolve_uplinks (long_int_name lib) ?roots = Inl e"
    unfolding resolve_uplinks_def using uplink_loop_bad_label by blast
  then have kind: "e = IndexError \<or> e = ValueError"
    unfolding resolve_uplinks_def by (rule uplink_loop_error)
  from assms e have "per_device_work lib (main_session sim) (the (device ''Enable'')) vset =
      (Inl e, [EvStartCiscoSession, EvCommand ''show spanning-tree root''])"
    by (simp add: per_device_work_resolver_fails)
  with assms have "try_block lib vset sim (the (device ''Hostname'')) (the (device ''Username''))
      (the (device ''Password'')) (the (device ''Protocol'')) (the (device ''Enable''))
      (resolve_proxy use_proxy dflt device) =
    (the (device ''Hostname''),
     (Inl e, [EvConnect (the (device ''Hostname'')) (the (device ''Username''))
                 (the (device ''Password'')) (the (device ''Protocol''))
                 (resolve_proxy use_proxy dflt device),
               EvStartCiscoSession, EvCommand ''show spanning-tree root'']))"
    by (simp add: try_block_work_fails)
  with assms kind have "device_iteration lib use_proxy dflt vset (device, sim) =
     (Inl e, [EvConnect (the (device ''Hostname'')) (the (device ''Username''))
                 (the (device ''Password'')) (the (device ''Protocol''))
                 (resolve_proxy use_proxy dflt device),
               EvStartCiscoSession, EvCommand ''show spanning-tree root''])"
    by (auto simp: device_iteration_keys handle_failure_def)
  then have "device_loop lib use_proxy dflt vset ((device, sim) # rest) =
     (Inl e, [EvConnect (the (device ''Hostname'')) (the (device ''Username''))
                 (the (device ''Password'')) (the (device ''Protocol''))
                 (resolve_proxy use_proxy dflt device),
               EvStartCiscoSession, EvCommand ''show spanning-tree root''])"
    by (simp add: io_bind_def)
  with kind show ?thesis
    by blast
qed

text \<open>
  The claim as stated fails: the label \<^verbatim>\<open>VLAN\<close> has no digits, the failure is a
  \<^verbatim>\<open>ValueError\<close>, and it ends the whole run: the second device of the inventory is never
  contacted and nothing is logged.
\<close>

theorem malformed_vlan_label_counterexample:
  "label_vlan ''VLAN'' = Inl ValueError \<and>
   fst (device_loop demo_library False ''jumpbox'' {10}
          [reachable ''IOS'' ''sw4'', reachable ''NXOS'' ''sw2'']) = Inl ValueError \<and>
   connects (snd (device_loop demo_library False ''jumpbox'' {10}
          [reachable ''IOS'' ''sw4'', reachable ''NXOS'' ''sw2''])) = [''sw4''] \<and>
   log_lines (snd (device_loop demo_library False ''jumpbox'' {10}
          [reachable ''IOS'' ''sw4'', reachable ''NXOS'' ''sw2''])) = []"
  by code_simp


section \<open>One device of the batch\<close>

lemma log_lines_simps [simp]:
  "log_lines [] = []"
  "log_lines (ev # tr) = log_line ev @ log_lines tr"
  "log_lines (tr @ tr') = log_lines tr @ log_lines tr'"
  by (simp_all add: log_lines_def)

lemma report_events_simps [simp]:
  "report_events [] = []"
  "report_events (ev # tr) = (if is_report_event ev then ev # report_events tr else report_events tr)"
  "report_events (tr @ tr') = report_events tr @ report_events tr'"
  by (simp_all add: report_events_def)

lemma connects_simps [simp]:
  "connects [] = []"
  "connects (ev # tr) = connected_host ev @ connects tr"
  "connects (tr @ tr') = connects tr @ connects tr'"
  by (simp_all add: connects_def)

lemma per_device_work_silent:
  "log_lines (snd (per_device_work lib sess en vset)) = []"
  "report_events (snd (per_device_work lib sess en vset)) = []"
  "connects (snd (per_device_work lib sess en vset)) = []"
  by (cases rule: per_device_work_cases [of sess lib en vset]; simp)+

lemma section_events_trace:
  "log_lines (section_events title separator host matched) = []"
  "report_events (section_events title separator host matched) =
     section_events title separator host matched"
  "connects (section_events title separator host matched) = []"
  by (induction matched) (simp_all add: section_events_def)

lemma format_row_wf: "3 \<le> length line \<Longrightarrow> format_row line = Inr (table_row line)"
  by (auto simp: format_row_def py_index_def table_row_def ljust_def)

lemma write_rows_wf:
  "\<forall>line\<in>set matched. 3 \<le> length line \<Longrightarrow>
   write_rows matched =
     (Inr (), map (\<lambda>entry. EvWriteReport (table_row entry @ ''\<newline>'')) matched)"
  by (induction matched) (simp_all add: format_row_wf io_defs write_report_def)

text \<open>The title row of the source has the gap 18, one more than the rows' layout.\<close>

lemma title_row_source: "title_row 18 = ''VLAN    MAC                  PORT''"
  by code_simp

lemma title_row_claimed: "title_row 17 = claimed_title_row"
  by code_simp

lemma write_section_wf:
  "\<forall>line\<in>set matched. 3 \<le> length line \<Longrightarrow>
   write_section host matched =
     (Inr (), section_events (title_row 18) ''\<newline>\<newline>'' host matched)"
  by (simp add: write_section_def write_rows_wf section_events_def io_defs write_report_def
      title_row_source)

lemma filter_step_results:
  "filter_step lin st entry = Inr st' \<Longrightarrow> \<forall>x\<in>set (results st). 3 \<le> length x \<Longrightarrow>
   \<forall>x\<in>set (results st'). 3 \<le> length x"
  by (auto simp: filter_step_def py_index_def Let_def split: sum.splits if_splits)

lemma filter_loop_results:
  "filter_loop lin st es = Inr st' \<Longrightarrow> \<forall>x\<in>set (results st). 3 \<le> length x \<Longrightarrow>
   \<forall>x\<in>set (results st'). 3 \<le> length x"
proof (induction es arbitrary: st)
  case Nil
  then show ?case by simp
next
  case (Cons e es)
  from Cons.prems(1) obtain st1 where s1: "filter_step lin st e = Inr st1"
    and s2: "filter_loop lin st1 es = Inr st'"
    by (auto split: sum.splits)
  from filter_step_results [OF s1 Cons.prems(2)] Cons.IH [OF s2] show ?case by blast
qed

lemma mac_filter_results:
  "mac_filter lin st = Inr st' \<Longrightarrow> \<forall>x\<in>set (results st'). 3 \<le> length x"
  unfolding mac_filter_def by (erule filter_loop_results) simp

lemma per_device_work_results:
  assumes "per_device_work lib sess en vset = (Inr (host, matched), tr)"
  shows "\<forall>x\<in>set matched. 3 \<le> length x"
proof (cases rule: per_device_work_cases [of sess lib en vset])
  case (ok raw_mac parsed exclude st)
  with assms have "matched = results st" by simp
  with ok(4) show ?thesis by (simp add: mac_filter_results)
qed (use assms in simp_all)

text \<open>The four ways out of the \<^verbatim>\<open>try\<close> block.\<close>

lemma try_block_cases [consumes 0, case_names connect_fail work_fail disconnect_fail finished]:
  obtains
    (connect_fail) e where
      "connect_result sim = Some e"
      "try_block lib vset sim host username password protocol enable proxy =
         (host, (Inl e, [EvConnect host username password protocol proxy]))"
  | (work_fail) e tr where
      "connect_result sim = None"
      "per_device_work lib (main_session sim) enable vset = (Inl e, tr)"
      "try_block lib vset sim host username password protocol enable proxy =
         (host, (Inl e, EvConnect host username password protocol proxy # tr))"
  | (disconnect_fail) e host' matched tr where
      "connect_result sim = None"
      "per_device_work lib (main_session sim) enable vset = (Inr (host', matched), tr)"
      "disconnect_result sim = Some e"
      "try_block lib vset sim host username password protocol enable proxy =
         (host', (Inl e, EvConnect host username password protocol proxy # tr @ [EvDisconnect]))"
  | (finished) host' matched tr where
      "connect_result sim = None"
      "per_device_work lib (main_session sim) enable vset = (Inr (host', matched), tr)"
      "disconnect_result sim = None"
      "try_block lib vset sim host username password protocol enable proxy =
         (host',
          (Inr (),
           EvConnect host username password protocol proxy # tr @ [EvDisconnect] @
           (if matched \<noteq> [] then section_events (title_row 18) ''\<newline>\<newline>'' host' matched
            else [])))"
proof (cases "connect_result sim")
  case (Some e)
  then show ?thesis by (auto intro: connect_fail simp: try_block_connect_fails)
next
  case None
  obtain r tr where w: "per_device_work lib (main_session sim) enable vset = (r, tr)"
    by (cases "per_device_work lib (main_session sim) enable vset")
  show ?thesis
  proof (cases r)
    case (Inl e)
    with None w show ?thesis by (auto intro: work_fail simp: try_block_work_fails)
  next
    case (Inr res)
    obtain host' matched where res: "res = (host', matched)"
      by (cases res)
    note w' = w [unfolded Inr res]
    have wf: "\<forall>x\<in>set matched. 3 \<le> length x"
      using w' by (rule per_device_work_results)
    show ?thesis
    proof (cases "disconnect_result sim")
      case (Some e)
      with None w' show ?thesis
        by (auto intro: disconnect_fail simp: try_block_work_returns)
    next
      case disc: None
      have "try_block lib vset sim host username password protocol enable proxy =
         (host',
          (Inr (),
           EvConnect host username password protocol proxy # tr @ [EvDisconnect] @
           (if matched \<noteq> [] then section_events (title_row 18) ''\<newline>\<newline>'' host' matched
            else [])))"
        using None w' disc wf
        by (simp add: try_block_work_returns write_section_wf io_return_def)
      with None w' disc show ?thesis by (rule finished)
    qed
  qed
qed

lemma log_failure_outcome:
  "fst (log_failure sim line) =
     (case log_append_result sim of
        Some e \<Rightarrow> Inl e
      | None \<Rightarrow> raises (session_disconnect_result sim))"
  "report_events (snd (log_failure sim line)) = []"
  "connects (snd (log_failure sim line)) = []"
  "log_lines (snd (log_failure sim line)) = [line]"
  by (cases rule: log_failure_cases [of sim line]; simp add: raises_def)+

lemma handle_failure_outcome:
  "fst (handle_failure sim (host, (r, tr))) =
     (if r = Inr () then Inr ()
      else if handled_failure r then
        (case log_append_result sim of
           Some e \<Rightarrow> Inl e
         | None \<Rightarrow> raises (session_disconnect_result sim))
      else r)"
  "report_events (snd (handle_failure sim (host, (r, tr)))) = report_events tr"
  "connects (snd (handle_failure sim (host, (r, tr)))) = connects tr"
  "length (log_lines (snd (handle_failure sim (host, (r, tr))))) =
     length (log_lines tr) + (if handled_failure r then 1 else 0)"
  by (cases rule: handled_failure_cases [of r];
      simp add: handle_failure_simps log_failure_outcome)+

lemma device_iteration_no_keys:
  "\<not> has_required_keys device \<Longrightarrow>
   device_iteration lib use_proxy dflt vset (device, sim) = (Inl KeyError, [])"
  by (auto simp: device_iteration_def has_required_keys_def required_keys_def py_getitem_def
      io_raise_def split: option.splits)


lemma try_block_trace:
  "log_lines (snd (snd (try_block lib vset sim host username password protocol enable proxy))) = []"
  "connects (snd (snd (try_block lib vset sim host username password protocol enable proxy))) =
     [host]"
proof -
  have silent: "log_lines tr = [] \<and> connects tr = []"
    if "per_device_work lib (main_session sim) enable vset = (r, tr)" for r tr
    using per_device_work_silent [of lib "main_session sim" enable vset] that by simp
  show "log_lines (snd (snd (try_block lib vset sim host username password protocol enable proxy))) = []"
    by (cases rule: try_block_cases [of sim lib vset host username password protocol enable proxy])
      (simp_all add: silent section_events_trace)
  show "connects (snd (snd (try_block lib vset sim host username password protocol enable proxy))) =
     [host]"
    by (cases rule: try_block_cases [of sim lib vset host username password protocol enable proxy])
      (simp_all add: silent section_events_trace)
qed

lemma iteration_outcome:
  assumes "has_required_keys device"
  shows "fst (device_iteration lib use_proxy dflt vset (device, sim)) =
      (if processing lib use_proxy dflt vset (device, sim) = Inr () then Inr ()
       else if handled_failure (processing lib use_proxy dflt vset (device, sim)) then
         (case log_append_result sim of
            Some e \<Rightarrow> Inl e
          | None \<Rightarrow> raises (session_disconnect_result sim))
       else processing lib use_proxy dflt vset (device, sim))"
    and "connects (snd (device_iteration lib use_proxy dflt vset (device, sim))) =
      [the (device ''Hostname'')]"
    and "length (log_lines (snd (device_iteration lib use_proxy dflt vset (device, sim)))) =
      (if handled_failure (processing lib use_proxy dflt vset (device, sim)) then 1 else 0)"
proof -
  let ?blk = "try_block lib vset sim (the (device ''Hostname'')) (the (device ''Username''))
      (the (device ''Password'')) (the (device ''Protocol'')) (the (device ''Enable''))
      (resolve_proxy use_proxy dflt device)"
  obtain host r tr where blk: "?blk = (host, (r, tr))"
    by (cases ?blk) auto
  have p: "processing lib use_proxy dflt vset (device, sim) = r"
    by (simp add: processing_def blk)
  have it: "device_iteration lib use_proxy dflt vset (device, sim) = handle_failure sim (host, (r, tr))"
    using assms by (simp add: device_iteration_keys blk)
  from try_block_trace [of lib vset sim "the (device ''Hostname'')" "the (device ''Username'')"
      "the (device ''Password'')" "the (device ''Protocol'')" "the (device ''Enable'')"
      "resolve_proxy use_proxy dflt device"]
  have tr: "log_lines tr = []" "connects tr = [the (device ''Hostname'')]"
    by (simp_all add: blk)
  show "fst (device_iteration lib use_proxy dflt vset (device, sim)) =
      (if processing lib use_proxy dflt vset (device, sim) = Inr () then Inr ()
       else if handled_failure (processing lib use_proxy dflt vset (device, sim)) then
         (case log_append_result sim of
            Some e \<Rightarrow> Inl e
          | None \<Rightarrow> raises (session_disconnect_result sim))
       else processing lib use_proxy dflt vset (device, sim))"
    unfolding it p by (rule handle_failure_outcome)
  show "connects (snd (device_iteration lib use_proxy dflt vset (device, sim))) =
      [the (device ''Hostname'')]"
    unfolding it by (simp add: handle_failure_outcome tr)
  show "length (log_lines (snd (device_iteration lib use_proxy dflt vset (device, sim)))) =
      (if handled_failure (processing lib use_proxy dflt vset (device, sim)) then 1 else 0)"
    unfolding it p by (simp add: handle_failure_outcome tr)
qed

lemma iteration_report:
  "report_events (snd (device_iteration lib use_proxy dflt vset d)) =
     device_section (title_row 18) ''\<newline>\<newline>'' lib vset d"
  "device_result lib vset d \<noteq> None \<Longrightarrow>
     fst (device_iteration lib use_proxy dflt vset d) = Inr ()"
proof -
  obtain device sim where d: "d = (device, sim)"
    by (cases d)
  let ?host = "the (device ''Hostname'')" and ?user = "the (device ''Username'')"
    and ?pw = "the (device ''Password'')" and ?proto = "the (device ''Protocol'')"
    and ?enable = "the (device ''Enable'')" and ?proxy = "resolve_proxy use_proxy dflt device"
  have silent: "report_events tr = []"
    if "per_device_work lib (main_session sim) ?enable vset = (r, tr)" for r tr
    using per_device_work_silent [of lib "main_session sim" ?enable vset] that by simp
  have both: "report_events (snd (device_iteration lib use_proxy dflt vset (device, sim))) =
       device_section (title_row 18) ''\<newline>\<newline>'' lib vset (device, sim) \<and>
     (device_result lib vset (device, sim) \<noteq> None \<longrightarrow>
       fst (device_iteration lib use_proxy dflt vset (device, sim)) = Inr ())"
  proof (cases "has_required_keys device")
    case False
    then show ?thesis
      by (simp add: device_iteration_no_keys device_section_def device_result_def)
  next
    case True
    then have it: "device_iteration lib use_proxy dflt vset (device, sim) =
        handle_failure sim (try_block lib vset sim ?host ?user ?pw ?proto ?enable ?proxy)"
      by (simp add: device_iteration_keys)
    show ?thesis
    proof (cases rule: try_block_cases [of sim lib vset ?host ?user ?pw ?proto ?enable ?proxy])
      case (connect_fail e)
      with True show ?thesis
        by (simp add: it handle_failure_outcome device_section_def device_result_def)
    next
      case (work_fail e tr)
      with True silent [of "Inl e" tr] show ?thesis
        by (simp add: it handle_failure_outcome device_section_def device_result_def)
    next
      case (disconnect_fail e host' matched tr)
      with True silent [of "Inr (host', matched)" tr] show ?thesis
        by (simp add: it handle_failure_outcome device_section_def device_result_def)
    next
      case (finished host' matched tr)
      with True silent [of "Inr (host', matched)" tr] show ?thesis
        by (simp add: it handle_failure_outcome device_section_def device_result_def
            section_events_trace)
    qed
  qed
  from both show "report_events (snd (device_iteration lib use_proxy dflt vset d)) =
     device_section (title_row 18) ''\<newline>\<newline>'' lib vset d"
    unfolding d by simp
  from both show "device_result lib vset d \<noteq> None \<Longrightarrow>
     fst (device_iteration lib use_proxy dflt vset d) = Inr ()"
    unfolding d by simp
qed


section \<open>The device loop\<close>

lemma device_loop_Cons:
  "device_loop lib use_proxy dflt vset (d # rest) =
     (case fst (device_iteration lib use_proxy dflt vset d) of
        Inl e \<Rightarrow> (Inl e, snd (device_iteration lib use_proxy dflt vset d))
      | Inr u \<Rightarrow>
          (fst (device_loop lib use_proxy dflt vset rest),
           snd (device_iteration lib use_proxy dflt vset d) @
           snd (device_loop lib use_proxy dflt vset rest)))"
  by (simp add: io_bind_def split: prod.splits sum.splits)

lemma device_loop_completes:
  "\<forall>d\<in>set devs. fst (device_iteration lib use_proxy dflt vset d) = Inr () \<Longrightarrow>
   device_loop lib use_proxy dflt vset devs =
     (Inr (), concat (map (\<lambda>d. snd (device_iteration lib use_proxy dflt vset d)) devs))"
proof (induction devs)
  case Nil
  then show ?case by (simp add: io_return_def)
next
  case (Cons d devs)
  then show ?case by (simp add: device_loop_Cons del: device_loop.simps)
qed

lemma device_loop_report:
  "report_events (snd (device_loop lib use_proxy dflt vset devs)) =
     concat (map (device_section (title_row 18) ''\<newline>\<newline>'' lib vset)
       (takeWhile (\<lambda>d. fst (device_iteration lib use_proxy dflt vset d) = Inr ()) devs))"
proof (induction devs)
  case Nil
  then show ?case by (simp add: io_return_def)
next
  case (Cons d devs)
  show ?case
  proof (cases "fst (device_iteration lib use_proxy dflt vset d)")
    case (Inl e)
    have "device_result lib vset d = None"
    proof (rule ccontr)
      assume "device_result lib vset d \<noteq> None"
      then have "fst (device_iteration lib use_proxy dflt vset d) = Inr ()"
        by (rule iteration_report(2))
      with Inl show False by simp
    qed
    then have "device_section (title_row 18) ''\<newline>\<newline>'' lib vset d = []"
      by (simp add: device_section_def)
    with Inl show ?thesis
      by (simp add: device_loop_Cons iteration_report(1) del: device_loop.simps)
  next
    case (Inr u)
    with Cons.IH show ?thesis
      by (simp add: device_loop_Cons iteration_report(1) del: device_loop.simps)
  qed
qed


lemma loop_trace_connects:
  "\<forall>d\<in>set devs. has_required_keys (fst d) \<Longrightarrow>
   connects (concat (map (\<lambda>d. snd (device_iteration lib use_proxy dflt vset d)) devs)) =
     map (\<lambda>d. the (fst d ''Hostname'')) devs"
proof (induction devs)
  case Nil
  then show ?case by simp
next
  case (Cons d devs)
  obtain device sim where d: "d = (device, sim)"
    by (cases d)
  with Cons.prems have "has_required_keys device" by simp
  then have "connects (snd (device_iteration lib use_proxy dflt vset d)) =
      [the (fst d ''Hostname'')]"
    unfolding d by (simp add: iteration_outcome(2))
  with Cons show ?case by simp
qed

lemma loop_trace_log:
  "\<forall>d\<in>set devs. has_required_keys (fst d) \<Longrightarrow>
   length (log_lines (concat (map (\<lambda>d. snd (device_iteration lib use_proxy dflt vset d)) devs))) =
     length (filter (\<lambda>d. handled_failure (processing lib use_proxy dflt vset d)) devs)"
proof (induction devs)
  case Nil
  then show ?case by simp
next
  case (Cons d devs)
  obtain device sim where d: "d = (device, sim)"
    by (cases d)
  with Cons.prems have "has_required_keys device" by simp
  then have "length (log_lines (snd (device_iteration lib use_proxy dflt vset d))) =
      (if handled_failure (processing lib use_proxy dflt vset d) then 1 else 0)"
    unfolding d by (rule iteration_outcome(3))
  with Cons show ?case by simp
qed

text \<open>
  The iteration for a device returns normally in exactly two cases: its processing
  succeeded, or it failed with a handled exception and both calls of the handler returned.
  So the loop returns normally exactly when this holds of every device of the inventory.
\<close>

lemma device_iteration_returns_iff:
  "fst (device_iteration lib use_proxy dflt vset (device, sim)) = Inr () \<longleftrightarrow>
   has_required_keys device \<and>
   (processing lib use_proxy dflt vset (device, sim) = Inr () \<or>
    handled_failure (processing lib use_proxy dflt vset (device, sim)) \<and> handler_returns sim)"
proof (cases "has_required_keys device")
  case False
  then show ?thesis
    by (simp add: device_iteration_no_keys)
next
  case True
  show ?thesis
  proof (cases rule: handled_failure_cases [of "processing lib use_proxy dflt vset (device, sim)"])
    case ok
    with True iteration_outcome(1) [OF True, of lib use_proxy dflt vset sim] show ?thesis
      by simp
  next
    case (connect m)
    with True iteration_outcome(1) [OF True, of lib use_proxy dflt vset sim] show ?thesis
      by (simp add: handler_returns_def raises_def split: option.splits)
  next
    case (interaction m)
    with True iteration_outcome(1) [OF True, of lib use_proxy dflt vset sim] show ?thesis
      by (simp add: handler_returns_def raises_def split: option.splits)
  next
    case (unsupported m)
    with True iteration_outcome(1) [OF True, of lib use_proxy dflt vset sim] show ?thesis
      by (simp add: handler_returns_def raises_def split: option.splits)
  next
    case (other e)
    with True iteration_outcome(1) [OF True, of lib use_proxy dflt vset sim] show ?thesis
      by simp
  qed
qed

lemma device_loop_returns_iff:
  "fst (device_loop lib use_proxy dflt vset devs) = Inr () \<longleftrightarrow>
   (\<forall>d\<in>set devs.
      has_required_keys (fst d) \<and>
      (processing lib use_proxy dflt vset d = Inr () \<or>
       handled_failure (processing lib use_proxy dflt vset d) \<and> handler_returns (snd d)))"
proof (induction devs)
  case Nil
  then show ?case by (simp add: io_return_def)
next
  case (Cons d devs)
  obtain device sim where d: "d = (device, sim)"
    by (cases d)
  show ?case
  proof (cases "fst (device_iteration lib use_proxy dflt vset d)")
    case (Inl e)
    with device_iteration_returns_iff [of lib use_proxy dflt vset device sim] show ?thesis
      unfolding d by (simp add: device_loop_Cons del: device_loop.simps)
  next
    case (Inr u)
    with device_iteration_returns_iff [of lib use_proxy dflt vset device sim] Cons.IH
    show ?thesis
      unfolding d by (simp add: device_loop_Cons del: device_loop.simps)
  qed
qed

text \<open>
  When a handler's own call raises, the loop is left at that device with the handler's
  exception, after the line was handed to the failure log.
\<close>

lemma handler_failure_leaves_loop:
  assumes "has_required_keys device"
    and "handled_failure (processing lib use_proxy dflt vset (device, sim))"
    and "log_append_result sim = Some e \<or>
         log_append_result sim = None \<and> session_disconnect_result sim = Some e"
  shows "fst (device_loop lib use_proxy dflt vset ((device, sim) # rest)) = Inl e"
    and "connects (snd (device_loop lib use_proxy dflt vset ((device, sim) # rest))) =
      [the (device ''Hostname'')]"
proof -
  from assms(2) have "processing lib use_proxy dflt vset (device, sim) \<noteq> Inr ()"
    by auto
  with iteration_outcome(1) [OF assms(1), of lib use_proxy dflt vset sim] assms(2,3)
  have it: "fst (device_iteration lib use_proxy dflt vset (device, sim)) = Inl e"
    by (auto simp: raises_def)
  then show "fst (device_loop lib use_proxy dflt vset ((device, sim) # rest)) = Inl e"
    by (simp add: device_loop_Cons del: device_loop.simps)
  from it iteration_outcome(2) [OF assms(1), of lib use_proxy dflt vset sim]
  show "connects (snd (device_loop lib use_proxy dflt vset ((device, sim) # rest))) =
      [the (device ''Hostname'')]"
    by (simp add: device_loop_Cons del: device_loop.simps)
qed

text \<open>
  For instance: the connection to \<open>sw8\<close> drops during the MAC table command, which raises
  \<^verbatim>\<open>InteractionError\<close>; the handler writes its line and calls \<^verbatim>\<open>session.disconnect()\<close>, which
  raises on the dropped connection; the run ends there and \<open>sw2\<close> is never contacted.
\<close>

lemma demo_handler_failure:
  "processing demo_library False ''jumpbox'' {10}
     (dropped ''sw8'' (Some (InteractionError ''not connected''))) =
     Inl (InteractionError ''timeout'') \<and>
   fst (device_loop demo_library False ''jumpbox'' {10}
          [dropped ''sw8'' (Some (InteractionError ''not connected'')),
           reachable ''NXOS'' ''sw2'']) = Inl (InteractionError ''not connected'') \<and>
   connects (snd (device_loop demo_library False ''jumpbox'' {10}
          [dropped ''sw8'' (Some (InteractionError ''not connected'')),
           reachable ''NXOS'' ''sw2''])) = [''sw8''] \<and>
   log_lines (snd (device_loop demo_library False ''jumpbox'' {10}
          [dropped ''sw8'' (Some (InteractionError ''not connected'')),
           reachable ''NXOS'' ''sw2''])) = [''<M_SCRIPT> Failure on sw8: timeout\<newline>'']"
  by code_simp

text \<open>
  C1 (as amended). For every device inventory whose records have the required columns and
  in which the processing of each device (the body of the \<^verbatim>\<open>try\<close>: connecting, collecting,
  disconnecting, writing the section of the report) either succeeds or fails with one of the
  three exceptions \<^verbatim>\<open>script_main\<close> has an \<^verbatim>\<open>except\<close> clause for (\<^verbatim>\<open>ConnectError\<close>,
  \<^verbatim>\<open>InteractionError\<close>, \<^verbatim>\<open>UnsupportedOSError\<close>), the two calls of that clause (the append to
  the failure log and \<^verbatim>\<open>session.disconnect()\<close>) returning normally, the device loop completes:
  it returns normally, it has connected to every device of the inventory, in order, and it
  has appended exactly one line to the failure log for each failing device and none for the
  others. The hypothesis is also necessary for the loop to return normally
  (\<open>device_loop_returns_iff\<close>).
\<close>

theorem batch_loop_isolates_handled_failures:
  assumes "\<forall>d\<in>set devs.
      has_required_keys (fst d) \<and>
      (processing lib use_proxy dflt vset d = Inr () \<or>
       handled_failure (processing lib use_proxy dflt vset d) \<and> handler_returns (snd d))"
  shows "fst (device_loop lib use_proxy dflt vset devs) = Inr () \<and>
     connects (snd (device_loop lib use_proxy dflt vset devs)) =
       map (\<lambda>d. the (fst d ''Hostname'')) devs \<and>
     length (log_lines (snd (device_loop lib use_proxy dflt vset devs))) =
       length (filter (\<lambda>d. handled_failure (processing lib use_proxy dflt vset d)) devs) \<and>
     (\<forall>d\<in>set devs.
        length (log_lines (snd (device_iteration lib use_proxy dflt vset d))) =
          (if handled_failure (processing lib use_proxy dflt vset d) then 1 else 0))"
proof -
  have keys: "\<forall>d\<in>set devs. has_required_keys (fst d)"
    using assms by blast
  have each: "fst (device_iteration lib use_proxy dflt vset d) = Inr () \<and>
      length (log_lines (snd (device_iteration lib use_proxy dflt vset d))) =
        (if handled_failure (processing lib use_proxy dflt vset d) then 1 else 0)"
    if "d \<in> set devs" for d
  proof -
    obtain device sim where d: "d = (device, sim)"
      by (cases d)
    from that assms d have k: "has_required_keys device"
      and p: "processing lib use_proxy dflt vset (device, sim) = Inr () \<or>
        handled_failure (processing lib use_proxy dflt vset (device, sim)) \<and>
        handler_returns sim"
      by auto
    from iteration_outcome(1) [OF k, of lib use_proxy dflt vset sim] p
    have "fst (device_iteration lib use_proxy dflt vset (device, sim)) = Inr ()"
      by (auto simp: handler_returns_def raises_def)
    with iteration_outcome(3) [OF k, of lib use_proxy dflt vset sim] show ?thesis
      unfolding d by simp
  qed
  then have "device_loop lib use_proxy dflt vset devs =
      (Inr (), concat (map (\<lambda>d. snd (device_iteration lib use_proxy dflt vset d)) devs))"
    by (simp add: device_loop_completes)
  with keys each show ?thesis
    by (simp add: loop_trace_connects loop_trace_log)
qed

lemma demo_processing:
  "has_required_keys (demo_device name)"
  "processing demo_library False ''jumpbox'' {10} (reachable ''IOS'' ''sw1'') = Inr ()"
  "processing demo_library False ''jumpbox'' {10} (unreachable ''sw3'') =
     Inl (ConnectError '' timed out '')"
  "processing demo_library False ''jumpbox'' {10} (unsupported ''sw6'') =
     Inl (UnsupportedOSError ''ASA is not supported'')"
  "processing demo_library False ''jumpbox'' {10} (dropped ''sw8'' None) =
     Inl (InteractionError ''timeout'')"
  "processing demo_library False ''jumpbox'' {10} (reachable ''NXOS'' ''sw2'') = Inr ()"
  by (simp add: has_required_keys_def required_keys_def demo_device_def) code_simp+

lemma demo_handlers:
  "handler_returns (snd (unreachable ''sw3''))"
  "handler_returns (snd (unsupported ''sw6''))"
  "handler_returns (snd (dropped ''sw8'' None))"
  by (simp_all add: handler_returns_def unreachable_def unsupported_def dropped_def)

lemma demo_fleet_log:
  "log_lines (snd (device_loop demo_library False ''jumpbox'' {10}
      [reachable ''IOS'' ''sw1'', unreachable ''sw3'', unsupported ''sw6'',
       dropped ''sw8'' None, reachable ''NXOS'' ''sw2''])) =
   [''<M_SCRIPT> Connect to sw3 failed: timed out\<newline>'',
    ''<M_SCRIPT> Unsupported OS on sw6: ASA is not supported\<newline>'',
    ''<M_SCRIPT> Failure on sw8: timeout\<newline>'']"
  by code_simp

theorem batch_loop_isolates_handled_failures_witness:
  "list_all (\<lambda>d. has_required_keys (fst d) \<and>
        (processing demo_library False ''jumpbox'' {10} d = Inr () \<or>
         handled_failure (processing demo_library False ''jumpbox'' {10} d) \<and>
         handler_returns (snd d)))
     [reachable ''IOS'' ''sw1'', unreachable ''sw3'', unsupported ''sw6'',
      dropped ''sw8'' None, reachable ''NXOS'' ''sw2''] \<and>
   fst (device_loop demo_library False ''jumpbox'' {10}
          [reachable ''IOS'' ''sw1'', unreachable ''sw3'', unsupported ''sw6'',
           dropped ''sw8'' None, reachable ''NXOS'' ''sw2'']) = Inr () \<and>
   connects (snd (device_loop demo_library False ''jumpbox'' {10}
          [reachable ''IOS'' ''sw1'', unreachable ''sw3'', unsupported ''sw6'',
           dropped ''sw8'' None, reachable ''NXOS'' ''sw2''])) =
     [''sw1'', ''sw3'', ''sw6'', ''sw8'', ''sw2''] \<and>
   length (log_lines (snd (device_loop demo_library False ''jumpbox'' {10}
          [reachable ''IOS'' ''sw1'', unreachable ''sw3'', unsupported ''sw6'',
           dropped ''sw8'' None, reachable ''NXOS'' ''sw2'']))) = 3 \<and>
   log_lines (snd (device_loop demo_library False ''jumpbox'' {10}
          [reachable ''IOS'' ''sw1'', unreachable ''sw3'', unsupported ''sw6'',
           dropped ''sw8'' None, reachable ''NXOS'' ''sw2''])) =
     [''<M_SCRIPT> Connect to sw3 failed: timed out\<newline>'',
      ''<M_SCRIPT> Unsupported OS on sw6: ASA is not supported\<newline>'',
      ''<M_SCRIPT> Failure on sw8: timeout\<newline>'']"
proof -
  let ?devs = "[reachable ''IOS'' ''sw1'', unreachable ''sw3'', unsupported ''sw6'',
      dropped ''sw8'' None, reachable ''NXOS'' ''sw2'']"
  have fsts: "fst (reachable os_tag name) = demo_device name"
    "fst (unreachable name) = demo_device name" "fst (unsupported name) = demo_device name"
    "fst (dropped name after) = demo_device name" for os_tag name after
    by (simp_all add: reachable_def unreachable_def unsupported_def dropped_def)
  have hyp: "\<forall>d\<in>set ?devs.
      has_required_keys (fst d) \<and>
      (processing demo_library False ''jumpbox'' {10} d = Inr () \<or>
       handled_failure (processing demo_library False ''jumpbox'' {10} d) \<and>
       handler_returns (snd d))"
    by (simp add: fsts demo_processing demo_handlers)
  then have hyp': "list_all (\<lambda>d. has_required_keys (fst d) \<and>
        (processing demo_library False ''jumpbox'' {10} d = Inr () \<or>
         handled_failure (processing demo_library False ''jumpbox'' {10} d) \<and>
         handler_returns (snd d))) ?devs"
    unfolding list_all_iff .
  have hosts: "map (\<lambda>d. the (fst d ''Hostname'')) ?devs =
      [''sw1'', ''sw3'', ''sw6'', ''sw8'', ''sw2'']"
    by code_simp
  have failing: "length (filter (\<lambda>d. handled_failure
      (processing demo_library False ''jumpbox'' {10} d)) ?devs) = 3"
    by (simp add: demo_processing)
  note main = batch_loop_isolates_handled_failures [OF hyp]
  from main have 1: "fst (device_loop demo_library False ''jumpbox'' {10} ?devs) = Inr ()"
    by (rule conjunct1)
  from main [THEN conjunct2, THEN conjunct1] hosts
  have 2: "connects (snd (device_loop demo_library False ''jumpbox'' {10} ?devs)) =
      [''sw1'', ''sw3'', ''sw6'', ''sw8'', ''sw2'']"
    by (rule trans)
  from main [THEN conjunct2, THEN conjunct2, THEN conjunct1] failing
  have 3: "length (log_lines (snd (device_loop demo_library False ''jumpbox'' {10} ?devs))) = 3"
    by (rule trans)
  show ?thesis
    apply (intro conjI)
        apply (rule hyp')
       apply (rule 1)
      apply (rule 2)
     apply (rule 3)
    apply (rule demo_fleet_log)
    done
qed

text \<open>
  The claim as stated fails for an internal data error: the first device's spanning-tree
  output carries the label \<^verbatim>\<open>MST0000\<close>, its processing fails with \<^verbatim>\<open>IndexError\<close>, no line
  is written to the failure log, and the loop is left without contacting the second device.
\<close>

theorem batch_loop_counterexample:
  "processing demo_library False ''jumpbox'' {10} (reachable ''IOS'' ''sw5'') = Inl IndexError \<and>
   fst (device_loop demo_library False ''jumpbox'' {10}
          [reachable ''IOS'' ''sw5'', reachable ''NXOS'' ''sw2'']) = Inl IndexError \<and>
   connects (snd (device_loop demo_library False ''jumpbox'' {10}
          [reachable ''IOS'' ''sw5'', reachable ''NXOS'' ''sw2''])) = [''sw5''] \<and>
   log_lines (snd (device_loop demo_library False ''jumpbox'' {10}
          [reachable ''IOS'' ''sw5'', reachable ''NXOS'' ''sw2''])) = []"
  by code_simp


section \<open>The report\<close>

lemma script_main_runs:
  assumes "\<not> is_connected scr" "import_device_list scr \<noteq> []" "prompt_window scr \<noteq> []"
    "expand_number_range lib (prompt_window scr) = Inr numbers"
  shows "script_main lib scr =
     (fst (device_loop lib (settings_use_proxy scr) (settings_proxy_session scr) (set numbers)
             (import_device_list scr)),
      [EvImportDeviceList, EvPromptWindow, EvOpenReport,
       EvWriteReport (''MAC ADDRESS SEARCH IN VLANS: '' @ prompt_window scr @
                      ''\<newline>\<newline>'')] @
      snd (device_loop lib (settings_use_proxy scr) (settings_proxy_session scr) (set numbers)
             (import_device_list scr)) @
      [EvCloseReport])"
  using assms
  by (simp add: script_main_def io_defs with_report_def write_report_def Let_def
      split: prod.splits)

text \<open>
  C6 (as amended). In a run that gets as far as opening the report, the report file
  receives, in this order: the header line \<open>MAC ADDRESS SEARCH IN VLANS: <range-string>\<close> and
  a blank line; then, for each device the loop completes, in inventory order, nothing when
  the device failed or its match sequence is empty, and otherwise one section: the line
  \<open>### Device: <hostname> ###\<close>, a title row naming the three columns (\<open>VLAN\<close> padded to
  width 8, then \<open>MAC\<close>, then \<open>PORT\<close> after one or more spaces), one row per matched entry in
  order, with the vlan field left-justified to width 8, the mac field to width 20 and the
  port field as it is, then a separator of two newline characters, which makes two blank
  lines, and a flush of the file. The file is closed at the end. A device on which the loop
  is left by an unhandled exception contributes nothing.
\<close>

theorem report_format:
  assumes "\<not> is_connected scr" "import_device_list scr \<noteq> []" "prompt_window scr \<noteq> []"
    "expand_number_range lib (prompt_window scr) = Inr numbers"
  shows "\<exists>gap. 0 < gap \<and>
     report_events (snd (script_main lib scr)) =
     [EvOpenReport,
      EvWriteReport (''MAC ADDRESS SEARCH IN VLANS: '' @ prompt_window scr @
                     ''\<newline>\<newline>'')] @
     concat (map (device_section (title_row gap) ''\<newline>\<newline>'' lib (set numbers))
       (takeWhile
          (\<lambda>d. fst (device_iteration lib (settings_use_proxy scr) (settings_proxy_session scr)
                      (set numbers) d) = Inr ())
          (import_device_list scr))) @
     [EvCloseReport]"
proof (intro exI conjI)
  show "0 < (18 :: nat)"
    by simp
  show "report_events (snd (script_main lib scr)) =
     [EvOpenReport,
      EvWriteReport (''MAC ADDRESS SEARCH IN VLANS: '' @ prompt_window scr @
                     ''\<newline>\<newline>'')] @
     concat (map (device_section (title_row 18) ''\<newline>\<newline>'' lib (set numbers))
       (takeWhile
          (\<lambda>d. fst (device_iteration lib (settings_use_proxy scr) (settings_proxy_session scr)
                      (set numbers) d) = Inr ())
          (import_device_list scr))) @
     [EvCloseReport]"
    by (simp add: script_main_runs [OF assms] device_loop_report)
qed

lemma demo_completed:
  "map (device_result demo_library (set [10]))
     (takeWhile
        (\<lambda>d. fst (device_iteration demo_library False ''jumpbox'' (set [10]) d) = Inr ())
        [reachable ''IOS'' ''sw1'', unreachable ''sw3'', reachable ''NXOS'' ''sw2'',
         reachable ''IOS'' ''sw7'']) =
   [Some (''sw1'', [[''10'', ''dddd.eeee.ffff'', ''Fa0/2'']]), None, Some (''sw2'', []),
    Some (''sw7'', [[''10'', ''0000.0000.0001'', ''Fa0/9''],
                    [''10'', ''0000.0000.0002'', ''Fa0/8'']])]"
  by code_simp

lemma device_sections_results:
  "concat (map (device_section title separator lib vset) devs) =
   concat (map (\<lambda>r. case r of
                       None \<Rightarrow> []
                     | Some (host, matched) \<Rightarrow>
                         if matched \<noteq> [] then section_events title separator host matched
                         else [])
             (map (device_result lib vset) devs))"
  by (induction devs) (simp_all add: device_section_def)

theorem report_format_witness:
  "\<not> is_connected (demo_script False
        [reachable ''IOS'' ''sw1'', unreachable ''sw3'', reachable ''NXOS'' ''sw2'',
         reachable ''IOS'' ''sw7'']) \<and>
   expand_number_range demo_library (prompt_window (demo_script False
        [reachable ''IOS'' ''sw1'', unreachable ''sw3'', reachable ''NXOS'' ''sw2'',
         reachable ''IOS'' ''sw7''])) = Inr [10] \<and>
   (\<exists>gap. 0 < gap \<and>
      report_events (snd (script_main demo_library (demo_script False
        [reachable ''IOS'' ''sw1'', unreachable ''sw3'', reachable ''NXOS'' ''sw2'',
         reachable ''IOS'' ''sw7'']))) =
      [EvOpenReport,
       EvWriteReport ''MAC ADDRESS SEARCH IN VLANS: 10\<newline>\<newline>'',
       EvWriteReport ''### Device: sw1 ###\<newline>'',
       EvWriteReport (title_row gap @ ''\<newline>''),
       EvWriteReport ''10      dddd.eeee.ffff      Fa0/2\<newline>'',
       EvWriteReport ''\<newline>\<newline>'', EvFlushReport,
       EvWriteReport ''### Device: sw7 ###\<newline>'',
       EvWriteReport (title_row gap @ ''\<newline>''),
       EvWriteReport ''10      0000.0000.0001      Fa0/9\<newline>'',
       EvWriteReport ''10      0000.0000.0002      Fa0/8\<newline>'',
       EvWriteReport ''\<newline>\<newline>'', EvFlushReport,
       EvCloseReport])"
proof -
  let ?devs = "[reachable ''IOS'' ''sw1'', unreachable ''sw3'', reachable ''NXOS'' ''sw2'',
      reachable ''IOS'' ''sw7'']"
  let ?scr = "demo_script False ?devs"
  have h1: "\<not> is_connected ?scr" and h2: "import_device_list ?scr \<noteq> []"
    and h3: "prompt_window ?scr \<noteq> []"
    by (simp_all add: demo_script_def)
  have h4: "expand_number_range demo_library (prompt_window ?scr) = Inr [10]"
    by (simp add: demo_script_def demo_library_def)
  have s: "settings_use_proxy ?scr = False" "settings_proxy_session ?scr = ''jumpbox''"
    "import_device_list ?scr = ?devs" "prompt_window ?scr = ''10''"
    by (simp_all add: demo_script_def)
  have rows: "table_row [''10'', ''dddd.eeee.ffff'', ''Fa0/2''] =
      ''10      dddd.eeee.ffff      Fa0/2''"
    "table_row [''10'', ''0000.0000.0001'', ''Fa0/9''] = ''10      0000.0000.0001      Fa0/9''"
    "table_row [''10'', ''0000.0000.0002'', ''Fa0/8''] = ''10      0000.0000.0002      Fa0/8''"
    by code_simp+
  from report_format [OF h1 h2 h3 h4] obtain gap where gap: "0 < gap"
    and run: "report_events (snd (script_main demo_library ?scr)) =
     [EvOpenReport,
      EvWriteReport (''MAC ADDRESS SEARCH IN VLANS: '' @ prompt_window ?scr @
                     ''\<newline>\<newline>'')] @
     concat (map (device_section (title_row gap) ''\<newline>\<newline>'' demo_library (set [10]))
       (takeWhile
          (\<lambda>d. fst (device_iteration demo_library (settings_use_proxy ?scr)
                      (settings_proxy_session ?scr) (set [10]) d) = Inr ())
          (import_device_list ?scr))) @
     [EvCloseReport]"
    by blast
  have "report_events (snd (script_main demo_library ?scr)) =
      [EvOpenReport,
       EvWriteReport ''MAC ADDRESS SEARCH IN VLANS: 10\<newline>\<newline>'',
       EvWriteReport ''### Device: sw1 ###\<newline>'',
       EvWriteReport (title_row gap @ ''\<newline>''),
       EvWriteReport ''10      dddd.eeee.ffff      Fa0/2\<newline>'',
       EvWriteReport ''\<newline>\<newline>'', EvFlushReport,
       EvWriteReport ''### Device: sw7 ###\<newline>'',
       EvWriteReport (title_row gap @ ''\<newline>''),
       EvWriteReport ''10      0000.0000.0001      Fa0/9\<newline>'',
       EvWriteReport ''10      0000.0000.0002      Fa0/8\<newline>'',
       EvWriteReport ''\<newline>\<newline>'', EvFlushReport,
       EvCloseReport]"
    unfolding run s device_sections_results demo_completed
    by (simp add: section_events_def rows)
  with gap h1 h4 show ?thesis
    by blast
qed

text \<open>
  The claim as stated fails on the title row and on the separator. One device, \<open>sw1\<close>, has
  the one match \<open>("10", "dddd.eeee.ffff", "Fa0/2")\<close>. Section 4.7 gives the title row the
  widths of the table, so \<open>PORT\<close> at column 28, and one blank line after the rows; the run
  writes \<open>PORT\<close> one column further right and two blank lines.
\<close>

theorem report_format_counterexample:
  "device_result demo_library {10} (reachable ''IOS'' ''sw1'') =
     Some (''sw1'', [[''10'', ''dddd.eeee.ffff'', ''Fa0/2'']]) \<and>
   claimed_report ''10'' [(''sw1'', [[''10'', ''dddd.eeee.ffff'', ''Fa0/2'']])] =
     ''MAC ADDRESS SEARCH IN VLANS: 10\<newline>\<newline>'' @
     ''### Device: sw1 ###\<newline>'' @
     ''VLAN    MAC                 PORT\<newline>'' @
     ''10      dddd.eeee.ffff      Fa0/2\<newline>'' @
     ''\<newline>'' \<and>
   report_text (snd (script_main demo_library
       (demo_script False [reachable ''IOS'' ''sw1'']))) =
     ''MAC ADDRESS SEARCH IN VLANS: 10\<newline>\<newline>'' @
     ''### Device: sw1 ###\<newline>'' @
     ''VLAN    MAC                  PORT\<newline>'' @
     ''10      dddd.eeee.ffff      Fa0/2\<newline>'' @
     ''\<newline>\<newline>'' \<and>
   report_text (snd (script_main demo_library
       (demo_script False [reachable ''IOS'' ''sw1'']))) \<noteq>
     claimed_report ''10'' [(''sw1'', [[''10'', ''dddd.eeee.ffff'', ''Fa0/2'']])]"
  by code_simp


end
